theory Spec2Isabelle
  imports Main
begin

section \<open>The wrapper classes of libfreenect2.pyx\<close>

text \<open>
  The module wraps the C++ objects of libfreenect2 in Python classes. Each class holds a
  raw pointer to a native object; the pointers, the objects they refer to and the calls
  the module forwards to the driver are made explicit here as a value of type \<open>world\<close>
  that every function takes and returns.
\<close>

subsection \<open>Pointers, exceptions, the native heap\<close>

text \<open>A C++ pointer: \<open>NULL\<close>, or the address of a native object.\<close>

datatype ptr = NULL | Addr nat

text \<open>
  The exceptions. \<open>AssertionError\<close>, \<open>ValueError\<close> and \<open>KeyError\<close> are raised by the
  module's own statements (\<open>ValueError\<close> by numpy as well, for an array it cannot
  describe); \<open>OverflowError\<close> is raised where a Python integer is coerced to a C integer
  it does not fit, \<open>TypeError\<close> where a Python object is coerced to a C++ type that does
  not take it. \<open>StateError\<close>, \<open>UseAfterCloseError\<close>,
  \<open>OwnershipError\<close> and \<open>FormatError\<close> are the names of the specification's taxonomy;
  no statement of the module constructs them. \<open>InvalidPointerAccess\<close> is not an
  exception: it stands for the C code reading through a pointer that refers to no live
  native object, after which the process is undefined.
\<close>

datatype error =
    AssertionError | ValueError | KeyError | OverflowError | TypeError
  | StateError | UseAfterCloseError | OwnershipError | FormatError
  | InvalidPointerAccess

text \<open>
  \<open>libfreenect2::Frame\<close>, with the fields the modelled methods read: the dimensions
  and the address of the pixel buffer.
\<close>

record native_frame =
  width :: nat
  height :: nat
  bytes_per_pixel :: nat
  data :: nat

text \<open>The arguments of \<open>libfreenect2::Registration::apply\<close>, as the wrapper passes them.\<close>

record apply_args =
  arg_rgb :: ptr
  arg_depth :: ptr
  arg_undistorted :: ptr
  arg_registered :: ptr
  arg_enable_filter :: bool
  arg_bigdepth :: ptr

text \<open>
  The calls the module forwards to the driver. The first pointer of each is the native
  object the method is called on.
\<close>

datatype native_call =
    Dev_getSerialNumber ptr
  | Dev_getFirmwareVersion ptr
  | Dev_getColorCameraParams ptr
  | Dev_getIrCameraParams ptr
  | Dev_setColorFrameListener ptr ptr
  | Dev_setIrAndDepthFrameListener ptr ptr
  | Dev_start ptr
  | Dev_stop ptr
  | Dev_close ptr
  | Reg_apply ptr apply_args
  | Listener_release ptr
  | F2_openDevice_idx ptr int "ptr option"
  | F2_openDevice_serial ptr string "ptr option"
  | F2_openDefaultDevice ptr "ptr option"

text \<open>
  The native side: the next unused address, the live \<open>libfreenect2::Frame\<close> objects,
  every address a C++ \<open>delete\<close> was executed on (in order, so that a second delete of
  one address shows), every call forwarded to the driver (in order), and the live native devices,
  each with the pipeline it was opened with (\<open>NULL\<close> when it was opened with none).
\<close>

record world =
  next_addr :: nat
  frames :: "nat \<rightharpoonup> native_frame"
  deleted :: "nat list"
  calls :: "native_call list"
  device_pipeline :: "nat \<rightharpoonup> ptr"

text \<open>\<open>del p\<close>: the object at \<open>p\<close> is destroyed; deleting \<open>NULL\<close> does nothing.\<close>

definition delete_obj :: "ptr \<Rightarrow> world \<Rightarrow> world" where
  "delete_obj p wd =
     (case p of
        NULL \<Rightarrow> wd
      | Addr a \<Rightarrow> wd\<lparr>frames := (frames wd)(a := None), deleted := deleted wd @ [a]\<rparr>)"

text \<open>Reading through a pointer to a frame: there is a value only at a live frame.\<close>

definition deref :: "ptr \<Rightarrow> world \<Rightarrow> native_frame option" where
  "deref p wd = (case p of NULL \<Rightarrow> None | Addr a \<Rightarrow> frames wd a)"

text \<open>
  Coercion of a Python integer to the C type \<open>int\<close> (32 bits) and to \<open>size_t\<close>
  (taken as 64 bits): a value out of range raises \<open>OverflowError\<close>.
\<close>

definition to_c_int :: "int \<Rightarrow> error + int" where
  "to_c_int v = (if - (2 ^ 31) \<le> v \<and> v < 2 ^ 31 then Inr v else Inl OverflowError)"

definition to_size_t :: "int \<Rightarrow> error + nat" where
  "to_size_t v = (if 0 \<le> v \<and> v < 2 ^ 64 then Inr (nat v) else Inl OverflowError)"

text \<open>
  \<open>new libfreenect2.Frame(width, height, bytes_per_pixel, NULL)\<close>: the three Python
  values are coerced to the constructor's \<open>size_t\<close> parameters, then a native frame is
  allocated at a fresh address, with a pixel buffer of its own.
\<close>

definition new_Frame :: "int \<Rightarrow> int \<Rightarrow> int \<Rightarrow> world \<Rightarrow> error + (ptr \<times> world)" where
  "new_Frame w h b wd =
     (case to_size_t w of
        Inl e \<Rightarrow> Inl e
      | Inr wn \<Rightarrow>
          (case to_size_t h of
             Inl e \<Rightarrow> Inl e
           | Inr hn \<Rightarrow>
               (case to_size_t b of
                  Inl e \<Rightarrow> Inl e
                | Inr bn \<Rightarrow>
                    (let a = next_addr wd in
                     Inr (Addr a,
                          wd\<lparr>next_addr := a + 2,
                             frames := (frames wd)(a \<mapsto>
                               \<lparr>width = wn, height = hn, bytes_per_pixel = bn,
                                data = a + 1\<rparr>)\<rparr>)))))"

subsection \<open>Frame\<close>

text \<open>
  The enum \<open>FrameType\<close> is an \<open>IntEnum\<close> declared in the package's \<open>__init__\<close>, which is
  not among the sources. Its members are a datatype here and their integer values a
  parameter \<open>val\<close> of every function that compares with them. \<open>FrameType_ok val\<close> says
  what the module relies on: the three values are distinct, not negative, and fit a C
  \<open>int\<close>.
\<close>

datatype FrameType = Color | Ir | Depth

definition FrameType_ok :: "(FrameType \<Rightarrow> int) \<Rightarrow> bool" where
  "FrameType_ok val =
     (val Color \<noteq> val Ir \<and> val Color \<noteq> val Depth \<and> val Ir \<noteq> val Depth
      \<and> 0 \<le> val Color \<and> 0 \<le> val Ir \<and> 0 \<le> val Depth
      \<and> val Color < 2 ^ 31 \<and> val Ir < 2 ^ 31 \<and> val Depth < 2 ^ 31)"

text \<open>
  The values of \<open>libfreenect2::Frame::Type\<close>, which the enum mirrors (the docstring of
  \<open>FrameMap.__getitem__\<close> shows \<open>frames[1]\<close> for the colour frame). Used for concrete
  inputs only.
\<close>

fun FrameType_flags :: "FrameType \<Rightarrow> int" where
  "FrameType_flags Color = 1"
| "FrameType_flags Ir = 2"
| "FrameType_flags Depth = 4"

text \<open>The three \<open>cdef\<close> attributes of a \<open>Frame\<close> object.\<close>

record Frame =
  ptr :: ptr
  take_ownership :: bool
  frame_type :: int

text \<open>Cython sets the attributes of a new object to zero before \<open>__cinit__\<close> runs.\<close>

definition Frame_zero :: Frame where
  "Frame_zero = \<lparr>ptr = NULL, take_ownership = False, frame_type = 0\<rparr>"

text \<open>
  \<open>Frame.__cinit__(self, width=None, height=None, bytes_per_pixel=None, int
  frame_type=-1)\<close>. An omitted argument is \<open>None\<close>. The result is the exception raised,
  if any, the object as the method left it, and the world.
\<close>

definition Frame_cinit ::
  "int option \<Rightarrow> int option \<Rightarrow> int option \<Rightarrow> int \<Rightarrow> Frame \<Rightarrow> world
     \<Rightarrow> error option \<times> Frame \<times> world" where
  "Frame_cinit w h b ft self wd =
     (let all_none = (w = None \<and> h = None \<and> b = None);
          all_not_none = (w \<noteq> None \<and> h \<noteq> None \<and> b \<noteq> None)
      in if \<not> (all_none \<or> all_not_none) then (Some AssertionError, self, wd)
         else
           (let self1 = self\<lparr>frame_type := ft\<rparr> in
            if all_not_none then
              (let self2 = self1\<lparr>take_ownership := True\<rparr> in
               case new_Frame (the w) (the h) (the b) wd of
                 Inl e \<Rightarrow> (Some e, self2, wd)
               | Inr (p, wd') \<Rightarrow> (None, self2\<lparr>ptr := p\<rparr>, wd'))
            else (None, self1\<lparr>take_ownership := False\<rparr>, wd)))"

text \<open>\<open>Frame.__dealloc__\<close>.\<close>

definition Frame_dealloc :: "Frame \<Rightarrow> world \<Rightarrow> world" where
  "Frame_dealloc self wd =
     (if take_ownership self \<and> ptr self \<noteq> NULL then delete_obj (ptr self) wd else wd)"

text \<open>
  The expression \<open>Frame(...)\<close>: a zeroed object is allocated and \<open>__cinit__\<close> runs on
  it; when \<open>__cinit__\<close> raises, the object is deallocated at once and the exception
  reaches the caller.
\<close>

definition Frame_construct ::
  "int option \<Rightarrow> int option \<Rightarrow> int option \<Rightarrow> int \<Rightarrow> world \<Rightarrow> (error + Frame) \<times> world" where
  "Frame_construct w h b ft wd =
     (case Frame_cinit w h b ft Frame_zero wd of
        (Some e, self, wd') \<Rightarrow> (Inl e, Frame_dealloc self wd')
      | (None, self, wd') \<Rightarrow> (Inr self, wd'))"

text \<open>
  The array a view is built from: \<open>np.PyArray_SimpleNewFromData(nd, shape, typenum,
  data)\<close> wraps the buffer at \<open>data\<close> without copying it.
\<close>

datatype npy_typenum = NPY_UINT8 | NPY_FLOAT32

record ndarray =
  nd :: nat
  dims :: "int list"
  typenum :: npy_typenum
  array_data :: nat

text \<open>
  The cast \<open><np.npy_intp>\<close> of a \<open>size_t\<close>: the 64 bits are read as a signed number.
\<close>

definition npy_intp :: "nat \<Rightarrow> int" where
  "npy_intp n = (let m = int n mod 2 ^ 64 in if m < 2 ^ 63 then m else m - 2 ^ 64)"

text \<open>
  \<open>np.PyArray_SimpleNewFromData(nd, shape, typenum, data)\<close>, numpy's constructor of an
  array over a buffer it is given. Before it builds the array it computes the byte
  count from the item size and the dimensions, in order: a dimension of zero is skipped,
  a negative one raises \<open>ValueError\<close>, and so does a product beyond the largest
  \<open>npy_intp\<close>.
\<close>

definition itemsize :: "npy_typenum \<Rightarrow> int" where
  "itemsize t = (case t of NPY_UINT8 \<Rightarrow> 1 | NPY_FLOAT32 \<Rightarrow> 4)"

fun array_nbytes :: "int \<Rightarrow> int list \<Rightarrow> error + int" where
  "array_nbytes nbytes [] = Inr nbytes"
| "array_nbytes nbytes (d # ds) =
     (if d = 0 then array_nbytes nbytes ds
      else if d < 0 then Inl ValueError
      else if nbytes * d > 2 ^ 63 - 1 then Inl ValueError
      else array_nbytes (nbytes * d) ds)"

definition PyArray_SimpleNewFromData ::
  "nat \<Rightarrow> int list \<Rightarrow> npy_typenum \<Rightarrow> nat \<Rightarrow> error + ndarray" where
  "PyArray_SimpleNewFromData n shape t buf =
     (case array_nbytes (itemsize t) shape of
        Inl e \<Rightarrow> Inl e
      | Inr nb \<Rightarrow> Inr \<lparr>nd = n, dims = shape, typenum = t, array_data = buf\<rparr>)"

text \<open>
  \<open>Frame.__uint8_data\<close> and \<open>Frame.__float32_data\<close>; both read \<open>self.ptr\<close>, with no
  check that it refers to a frame. (A native frame always has a pixel buffer: its
  constructor allocates one when it is given none.)
\<close>

definition Frame_uint8_data :: "Frame \<Rightarrow> world \<Rightarrow> error + ndarray" where
  "Frame_uint8_data self wd =
     (case deref (ptr self) wd of
        None \<Rightarrow> Inl InvalidPointerAccess
      | Some fr \<Rightarrow>
          PyArray_SimpleNewFromData 3 [npy_intp (height fr), npy_intp (width fr), 4]
            NPY_UINT8 (data fr))"

definition Frame_float32_data :: "Frame \<Rightarrow> world \<Rightarrow> error + ndarray" where
  "Frame_float32_data self wd =
     (case deref (ptr self) wd of
        None \<Rightarrow> Inl InvalidPointerAccess
      | Some fr \<Rightarrow>
          PyArray_SimpleNewFromData 2 [npy_intp (height fr), npy_intp (width fr)]
            NPY_FLOAT32 (data fr))"

text \<open>
  The \<open>data_type\<close> argument of \<open>astype\<close>, up to what the method compares it with:
  something equal to \<open>np.uint8\<close>, something equal to \<open>np.float32\<close>, or anything else
  (named, to tell such values apart).
\<close>

datatype np_type = np_uint8 | np_float32 | np_other string

text \<open>\<open>Frame.astype(self, data_type)\<close>.\<close>

definition Frame_astype :: "Frame \<Rightarrow> np_type \<Rightarrow> world \<Rightarrow> error + ndarray" where
  "Frame_astype self data_type wd =
     (if data_type \<noteq> np_uint8 \<and> data_type \<noteq> np_float32 then Inl ValueError
      else if data_type = np_uint8 then Frame_uint8_data self wd
      else Frame_float32_data self wd)"

text \<open>\<open>Frame.asarray(self)\<close>; the last branch is \<open>assert False\<close>.\<close>

definition Frame_asarray :: "(FrameType \<Rightarrow> int) \<Rightarrow> Frame \<Rightarrow> world \<Rightarrow> error + ndarray" where
  "Frame_asarray val self wd =
     (if frame_type self < 0 then Inl ValueError
      else if frame_type self = val Color then Frame_astype self np_uint8 wd
      else if frame_type self = val Ir \<or> frame_type self = val Depth
        then Frame_astype self np_float32 wd
      else Inl AssertionError)"

text \<open>
  The properties that read a dimension of the native frame. (\<open>timestamp\<close>,
  \<open>sequence\<close>, \<open>exposure\<close>, \<open>gain\<close> and \<open>gamma\<close> read a field of the same object in
  the same way.)
\<close>

definition Frame_width :: "Frame \<Rightarrow> world \<Rightarrow> error + nat" where
  "Frame_width self wd =
     (case deref (ptr self) wd of None \<Rightarrow> Inl InvalidPointerAccess | Some fr \<Rightarrow> Inr (width fr))"

definition Frame_height :: "Frame \<Rightarrow> world \<Rightarrow> error + nat" where
  "Frame_height self wd =
     (case deref (ptr self) wd of None \<Rightarrow> Inl InvalidPointerAccess | Some fr \<Rightarrow> Inr (height fr))"

definition Frame_bytes_per_pixel :: "Frame \<Rightarrow> world \<Rightarrow> error + nat" where
  "Frame_bytes_per_pixel self wd =
     (case deref (ptr self) wd of
        None \<Rightarrow> Inl InvalidPointerAccess
      | Some fr \<Rightarrow> Inr (bytes_per_pixel fr))"

text \<open>
  What a caller can do with a \<open>Frame\<close> object between its construction and its
  deallocation, and the effect of a sequence of such operations on the world. None of
  them writes to the object (its attributes are \<open>cdef\<close>, out of reach of Python code).
\<close>

datatype frame_op =
    Get_width | Get_height | Get_bytes_per_pixel | Astype np_type | Asarray

datatype op_result = Res_nat "error + nat" | Res_array "error + ndarray"

definition Frame_op :: "(FrameType \<Rightarrow> int) \<Rightarrow> Frame \<Rightarrow> frame_op \<Rightarrow> world \<Rightarrow> op_result \<times> world" where
  "Frame_op val self opn wd =
     (case opn of
        Get_width \<Rightarrow> (Res_nat (Frame_width self wd), wd)
      | Get_height \<Rightarrow> (Res_nat (Frame_height self wd), wd)
      | Get_bytes_per_pixel \<Rightarrow> (Res_nat (Frame_bytes_per_pixel self wd), wd)
      | Astype t \<Rightarrow> (Res_array (Frame_astype self t wd), wd)
      | Asarray \<Rightarrow> (Res_array (Frame_asarray val self wd), wd))"

fun Frame_ops :: "(FrameType \<Rightarrow> int) \<Rightarrow> Frame \<Rightarrow> frame_op list \<Rightarrow> world \<Rightarrow> world" where
  "Frame_ops val self [] wd = wd"
| "Frame_ops val self (opn # rest) wd = Frame_ops val self rest (snd (Frame_op val self opn wd))"

text \<open>
  The life of a \<open>Frame\<close> object: the caller's operations, then the one call of
  \<open>__dealloc__\<close> the runtime makes when the last reference is gone.
\<close>

definition Frame_lifetime :: "(FrameType \<Rightarrow> int) \<Rightarrow> Frame \<Rightarrow> frame_op list \<Rightarrow> world \<Rightarrow> world" where
  "Frame_lifetime val self opns wd = Frame_dealloc self (Frame_ops val self opns wd)"

subsection \<open>FrameMap\<close>

text \<open>
  The key type of the native map, \<open>libfreenect2::Frame::Type\<close>, and the \<open>FrameMap\<close>
  object: a \<open>std::map\<close> from it to frame pointers, and the ownership flag. An entry of
  the map can be absent, or present with the value \<open>NULL\<close>.
\<close>

datatype LibFreenect2FrameType = LF2_Color | LF2_Ir | LF2_Depth

record FrameMap =
  internal_frame_map :: "LibFreenect2FrameType \<rightharpoonup> ptr"
  fm_take_ownership :: bool

text \<open>\<open>intenum_to_frame_type(int n)\<close>.\<close>

definition intenum_to_frame_type :: "(FrameType \<Rightarrow> int) \<Rightarrow> int \<Rightarrow> error + LibFreenect2FrameType" where
  "intenum_to_frame_type val n =
     (if n = val Color then Inr LF2_Color
      else if n = val Ir then Inr LF2_Ir
      else if n = val Depth then Inr LF2_Depth
      else Inl ValueError)"

text \<open>
  \<open>str.lower()\<close> on the characters of a \<open>string\<close> (code points below 256): the ASCII
  capitals and the capitals of Latin-1 move down by 32.
\<close>

definition lower_char :: "char \<Rightarrow> char" where
  "lower_char c =
     (let n = of_char c :: nat in
      if (65 \<le> n \<and> n \<le> 90) \<or> (192 \<le> n \<and> n \<le> 222 \<and> n \<noteq> 215)
      then char_of (n + 32) else c)"

definition lower :: "string \<Rightarrow> string" where
  "lower s = map lower_char s"

text \<open>\<open>str_to_int_frame_type(str s)\<close>: the result is a member of the enum.\<close>

definition str_to_int_frame_type :: "string \<Rightarrow> error + FrameType" where
  "str_to_int_frame_type s0 =
     (let s = lower s0 in
      if s = ''color'' then Inr Color
      else if s = ''ir'' then Inr Ir
      else if s = ''depth'' then Inr Depth
      else Inl ValueError)"

text \<open>
  \<open>str_to_frame_type(str s)\<close>: the enum member is coerced to the \<open>int\<close> parameter of
  \<open>intenum_to_frame_type\<close>.
\<close>

definition str_to_frame_type :: "(FrameType \<Rightarrow> int) \<Rightarrow> string \<Rightarrow> error + LibFreenect2FrameType" where
  "str_to_frame_type val s =
     (case str_to_int_frame_type s of
        Inl e \<Rightarrow> Inl e
      | Inr m \<Rightarrow>
          (case to_c_int (val m) of
             Inl e \<Rightarrow> Inl e
           | Inr n \<Rightarrow> intenum_to_frame_type val n))"

text \<open>
  A key of \<open>__getitem__\<close>: a Python integer, a member of \<open>FrameType\<close> (an instance of
  \<open>int\<close> as well), a string, or an object of any other type.
\<close>

datatype pykey = KInt int | KEnum FrameType | KStr string | KOther

text \<open>
  The first half of \<open>FrameMap.__getitem__\<close>: the key is turned into the native
  \<open>frame_type\<close> and the integer \<open>intkey\<close>.
\<close>

definition getitem_key ::
  "(FrameType \<Rightarrow> int) \<Rightarrow> pykey \<Rightarrow> error + (LibFreenect2FrameType \<times> int)" where
  "getitem_key val key =
     (case key of
        KInt k \<Rightarrow>
          (case to_c_int k of
             Inl e \<Rightarrow> Inl e
           | Inr n \<Rightarrow>
               (case intenum_to_frame_type val n of
                  Inl e \<Rightarrow> Inl e
                | Inr t \<Rightarrow> Inr (t, n)))
      | KEnum m \<Rightarrow>
          (case to_c_int (val m) of
             Inl e \<Rightarrow> Inl e
           | Inr n \<Rightarrow>
               (case intenum_to_frame_type val n of
                  Inl e \<Rightarrow> Inl e
                | Inr t \<Rightarrow> Inr (t, n)))
      | KStr s \<Rightarrow>
          (case str_to_frame_type val s of
             Inl e \<Rightarrow> Inl e
           | Inr t \<Rightarrow>
               (case str_to_int_frame_type s of
                  Inl e \<Rightarrow> Inl e
                | Inr m \<Rightarrow>
                    (case to_c_int (val m) of
                       Inl e \<Rightarrow> Inl e
                     | Inr n \<Rightarrow> Inr (t, n))))
      | KOther \<Rightarrow> Inl KeyError)"

text \<open>
  \<open>FrameMap.__getitem__(self, key)\<close>. Indexing a \<open>std::map\<close> with \<open>[]\<close> inserts the
  key with the value \<open>NULL\<close> when it is absent, and gives the stored pointer. The new
  \<open>Frame\<close> is built with no dimensions and then given that pointer.
\<close>

definition FrameMap_getitem ::
  "(FrameType \<Rightarrow> int) \<Rightarrow> FrameMap \<Rightarrow> pykey \<Rightarrow> world \<Rightarrow> (error + Frame) \<times> FrameMap \<times> world" where
  "FrameMap_getitem val self key wd =
     (case getitem_key val key of
        Inl e \<Rightarrow> (Inl e, self, wd)
      | Inr (ft, intkey) \<Rightarrow>
          (let frame_ptr = (case internal_frame_map self ft of None \<Rightarrow> NULL | Some p \<Rightarrow> p);
               self' = self\<lparr>internal_frame_map := (internal_frame_map self)(ft \<mapsto> frame_ptr)\<rparr>
           in case Frame_construct None None None intkey wd of
                (Inl e, wd') \<Rightarrow> (Inl e, self', wd')
              | (Inr frame, wd') \<Rightarrow> (Inr (frame\<lparr>ptr := frame_ptr\<rparr>), self', wd')))"

subsection \<open>SyncMultiFrameListener\<close>

record SyncMultiFrameListener =
  listener_ptr :: ptr
  listener_ptr_alias :: ptr

text \<open>
  \<open>SyncMultiFrameListener.release(self, frame_map)\<close> passes the native map, by
  reference, to \<open>libfreenect2::SyncMultiFrameListener::release\<close>. That function is the
  driver's; what it does to the map and to the world is the parameter \<open>native_release\<close>.
\<close>

definition SyncMultiFrameListener_release ::
  "((LibFreenect2FrameType \<rightharpoonup> ptr) \<Rightarrow> world \<Rightarrow> (LibFreenect2FrameType \<rightharpoonup> ptr) \<times> world)
     \<Rightarrow> SyncMultiFrameListener \<Rightarrow> FrameMap \<Rightarrow> world \<Rightarrow> FrameMap \<times> world" where
  "SyncMultiFrameListener_release native_release self frame_map wd =
     (case native_release (internal_frame_map frame_map)
             (wd\<lparr>calls := calls wd @ [Listener_release (listener_ptr self)]\<rparr>) of
        (m, wd') \<Rightarrow> (frame_map\<lparr>internal_frame_map := m\<rparr>, wd'))"

text \<open>
  A driver whose \<open>release\<close> deletes every frame of the map and sets its entry to
  \<open>NULL\<close>, as the comment in \<open>FrameMap.__dealloc__\<close> describes it.
\<close>

definition release_entry ::
  "LibFreenect2FrameType \<Rightarrow> (LibFreenect2FrameType \<rightharpoonup> ptr) \<times> world
     \<Rightarrow> (LibFreenect2FrameType \<rightharpoonup> ptr) \<times> world" where
  "release_entry k mw =
     (case fst mw k of
        None \<Rightarrow> mw
      | Some p \<Rightarrow> ((fst mw)(k \<mapsto> NULL), delete_obj p (snd mw)))"

definition nulling_release ::
  "(LibFreenect2FrameType \<rightharpoonup> ptr) \<Rightarrow> world \<Rightarrow> (LibFreenect2FrameType \<rightharpoonup> ptr) \<times> world" where
  "nulling_release m wd =
     release_entry LF2_Depth (release_entry LF2_Ir (release_entry LF2_Color (m, wd)))"

subsection \<open>Registration\<close>

record Registration =
  reg_ptr :: ptr

text \<open>
  \<open>Registration.apply(self, rgb, depth, undistored, registered, enable_filter=True,
  bigdepth=None)\<close>. The five \<open>assert\<close> statements run in order; then the native
  \<open>apply\<close> is called with the frames' pointers. What the native function does to the
  world (the pixels it writes) is the parameter \<open>native_apply\<close>.
\<close>

definition Registration_apply ::
  "(ptr \<Rightarrow> apply_args \<Rightarrow> world \<Rightarrow> world)
     \<Rightarrow> Registration \<Rightarrow> Frame \<Rightarrow> Frame \<Rightarrow> Frame \<Rightarrow> Frame \<Rightarrow> bool \<Rightarrow> Frame option
     \<Rightarrow> world \<Rightarrow> (error + unit) \<times> world" where
  "Registration_apply native_apply self rgb depth undistored registered enable_filter bigdepth wd =
     (if \<not> (take_ownership rgb = False) then (Inl AssertionError, wd)
      else if \<not> (take_ownership depth = False) then (Inl AssertionError, wd)
      else if \<not> (take_ownership undistored = True) then (Inl AssertionError, wd)
      else if \<not> (take_ownership registered = True) then (Inl AssertionError, wd)
      else if \<not> (bigdepth = None \<or> take_ownership (the bigdepth) = True)
        then (Inl AssertionError, wd)
      else
        (let bigdepth_ptr = (if bigdepth = None then NULL else ptr (the bigdepth));
             args = \<lparr>arg_rgb = ptr rgb, arg_depth = ptr depth,
                     arg_undistorted = ptr undistored, arg_registered = ptr registered,
                     arg_enable_filter = enable_filter, arg_bigdepth = bigdepth_ptr\<rparr>
         in (Inr (),
             native_apply (reg_ptr self) args
               (wd\<lparr>calls := calls wd @ [Reg_apply (reg_ptr self) args]\<rparr>))))"

text \<open>
  A registration primitive for concrete runs: it writes a frame of the depth image's
  size over the undistorted and the registered output.
\<close>

definition copying_apply :: "ptr \<Rightarrow> apply_args \<Rightarrow> world \<Rightarrow> world" where
  "copying_apply r args wd =
     (case (deref (arg_depth args) wd, arg_undistorted args, arg_registered args) of
        (Some fr, Addr u, Addr g) \<Rightarrow>
          wd\<lparr>frames := (frames wd)(u \<mapsto> fr\<lparr>data := u + 1\<rparr>, g \<mapsto> fr\<lparr>data := g + 1\<rparr>)\<rparr>
      | _ \<Rightarrow> wd)"

subsection \<open>PacketPipeline\<close>

text \<open>
  The base class \<open>PacketPipeline\<close> declares \<open>pipeline_ptr_alias\<close> and
  \<open>owned_by_device\<close>; \<open>CpuPacketPipeline\<close> adds \<open>pipeline\<close>. (The OpenGL and OpenCL
  pipelines are included from other files when the build enables them.)
\<close>

datatype pipeline_class = PacketPipeline_class | CpuPacketPipeline_class

record PacketPipeline =
  pipeline_class :: pipeline_class
  pipeline :: ptr
  pipeline_ptr_alias :: ptr
  owned_by_device :: bool

text \<open>An object of the base class: it has no \<open>__cinit__\<close>, so its attributes stay zero.\<close>

definition PacketPipeline_zero :: PacketPipeline where
  "PacketPipeline_zero =
     \<lparr>pipeline_class = PacketPipeline_class, pipeline = NULL, pipeline_ptr_alias = NULL,
      owned_by_device = False\<rparr>"

text \<open>\<open>CpuPacketPipeline.__cinit__\<close>: a native pipeline at a fresh address.\<close>

definition CpuPacketPipeline_cinit :: "world \<Rightarrow> PacketPipeline \<times> world" where
  "CpuPacketPipeline_cinit wd =
     (let a = next_addr wd in
      (\<lparr>pipeline_class = CpuPacketPipeline_class, pipeline = Addr a,
        pipeline_ptr_alias = Addr a, owned_by_device = False\<rparr>,
       wd\<lparr>next_addr := a + 1\<rparr>))"

text \<open>
  Deallocation of a pipeline object: \<open>CpuPacketPipeline.__dealloc__\<close> for that class;
  the base class has no \<open>__dealloc__\<close>.
\<close>

definition PacketPipeline_dealloc :: "PacketPipeline \<Rightarrow> world \<Rightarrow> world" where
  "PacketPipeline_dealloc self wd =
     (case pipeline_class self of
        PacketPipeline_class \<Rightarrow> wd
      | CpuPacketPipeline_class \<Rightarrow>
          (if \<not> owned_by_device self then
             (if pipeline self \<noteq> NULL then delete_obj (pipeline self) wd else wd)
           else wd))"

subsection \<open>Freenect2Device\<close>

record Freenect2Device =
  dev_ptr :: ptr

text \<open>
  What a method returns: \<open>None\<close>, or the value the forwarded native call produced
  (wrapped in a parameter object by the two \<open>Params\<close> getters).
\<close>

datatype pyresult = PyNone | NativeResult native_call

text \<open>
  A method reads through \<open>self.ptr\<close> with no check. The pointer of an object made by
  \<open>Freenect2Device()\<close> is \<open>NULL\<close>, and so is the pointer a failed open hands back; the
  pointer of a device the driver has destroyed refers to nothing. A call through such a
  pointer is \<open>InvalidPointerAccess\<close> and reaches no device.
\<close>

definition device_live :: "ptr \<Rightarrow> world \<Rightarrow> bool" where
  "device_live p wd = (case p of NULL \<Rightarrow> False | Addr d \<Rightarrow> device_pipeline wd d \<noteq> None)"

text \<open>The methods of \<open>Freenect2Device\<close>, in the order of the source.\<close>

definition Freenect2Device_getSerialNumber ::
  "Freenect2Device \<Rightarrow> world \<Rightarrow> (error + pyresult) \<times> world" where
  "Freenect2Device_getSerialNumber self wd =
     (if device_live (dev_ptr self) wd then
        (let c = Dev_getSerialNumber (dev_ptr self)
         in (Inr (NativeResult c), wd\<lparr>calls := calls wd @ [c]\<rparr>))
      else (Inl InvalidPointerAccess, wd))"

definition Freenect2Device_getFirmwareVersion ::
  "Freenect2Device \<Rightarrow> world \<Rightarrow> (error + pyresult) \<times> world" where
  "Freenect2Device_getFirmwareVersion self wd =
     (if device_live (dev_ptr self) wd then
        (let c = Dev_getFirmwareVersion (dev_ptr self)
         in (Inr (NativeResult c), wd\<lparr>calls := calls wd @ [c]\<rparr>))
      else (Inl InvalidPointerAccess, wd))"

definition Freenect2Device_getColorCameraParams ::
  "Freenect2Device \<Rightarrow> world \<Rightarrow> (error + pyresult) \<times> world" where
  "Freenect2Device_getColorCameraParams self wd =
     (if device_live (dev_ptr self) wd then
        (let c = Dev_getColorCameraParams (dev_ptr self)
         in (Inr (NativeResult c), wd\<lparr>calls := calls wd @ [c]\<rparr>))
      else (Inl InvalidPointerAccess, wd))"

definition Freenect2Device_getIrCameraParams ::
  "Freenect2Device \<Rightarrow> world \<Rightarrow> (error + pyresult) \<times> world" where
  "Freenect2Device_getIrCameraParams self wd =
     (if device_live (dev_ptr self) wd then
        (let c = Dev_getIrCameraParams (dev_ptr self)
         in (Inr (NativeResult c), wd\<lparr>calls := calls wd @ [c]\<rparr>))
      else (Inl InvalidPointerAccess, wd))"

definition Freenect2Device_setColorFrameListener ::
  "Freenect2Device \<Rightarrow> SyncMultiFrameListener \<Rightarrow> world \<Rightarrow> (error + pyresult) \<times> world" where
  "Freenect2Device_setColorFrameListener self listener wd =
     (if device_live (dev_ptr self) wd then
        (Inr PyNone,
         wd\<lparr>calls := calls wd @
               [Dev_setColorFrameListener (dev_ptr self) (listener_ptr_alias listener)]\<rparr>)
      else (Inl InvalidPointerAccess, wd))"

definition Freenect2Device_setIrAndDepthFrameListener ::
  "Freenect2Device \<Rightarrow> SyncMultiFrameListener \<Rightarrow> world \<Rightarrow> (error + pyresult) \<times> world" where
  "Freenect2Device_setIrAndDepthFrameListener self listener wd =
     (if device_live (dev_ptr self) wd then
        (Inr PyNone,
         wd\<lparr>calls := calls wd @
               [Dev_setIrAndDepthFrameListener (dev_ptr self) (listener_ptr_alias listener)]\<rparr>)
      else (Inl InvalidPointerAccess, wd))"

definition Freenect2Device_start :: "Freenect2Device \<Rightarrow> world \<Rightarrow> (error + pyresult) \<times> world" where
  "Freenect2Device_start self wd =
     (if device_live (dev_ptr self) wd then
        (Inr PyNone, wd\<lparr>calls := calls wd @ [Dev_start (dev_ptr self)]\<rparr>)
      else (Inl InvalidPointerAccess, wd))"

definition Freenect2Device_stop :: "Freenect2Device \<Rightarrow> world \<Rightarrow> (error + pyresult) \<times> world" where
  "Freenect2Device_stop self wd =
     (if device_live (dev_ptr self) wd then
        (Inr PyNone, wd\<lparr>calls := calls wd @ [Dev_stop (dev_ptr self)]\<rparr>)
      else (Inl InvalidPointerAccess, wd))"

definition Freenect2Device_close :: "Freenect2Device \<Rightarrow> world \<Rightarrow> (error + pyresult) \<times> world" where
  "Freenect2Device_close self wd =
     (if device_live (dev_ptr self) wd then
        (Inr PyNone, wd\<lparr>calls := calls wd @ [Dev_close (dev_ptr self)]\<rparr>)
      else (Inl InvalidPointerAccess, wd))"

text \<open>A method call on a device, and a sequence of them in program order.\<close>

datatype dev_method =
    M_getSerialNumber | M_getFirmwareVersion | M_getColorCameraParams | M_getIrCameraParams
  | M_setColorFrameListener SyncMultiFrameListener
  | M_setIrAndDepthFrameListener SyncMultiFrameListener
  | M_start | M_stop | M_close

definition Freenect2Device_call ::
  "Freenect2Device \<Rightarrow> dev_method \<Rightarrow> world \<Rightarrow> (error + pyresult) \<times> world" where
  "Freenect2Device_call self m wd =
     (case m of
        M_getSerialNumber \<Rightarrow> Freenect2Device_getSerialNumber self wd
      | M_getFirmwareVersion \<Rightarrow> Freenect2Device_getFirmwareVersion self wd
      | M_getColorCameraParams \<Rightarrow> Freenect2Device_getColorCameraParams self wd
      | M_getIrCameraParams \<Rightarrow> Freenect2Device_getIrCameraParams self wd
      | M_setColorFrameListener l \<Rightarrow> Freenect2Device_setColorFrameListener self l wd
      | M_setIrAndDepthFrameListener l \<Rightarrow> Freenect2Device_setIrAndDepthFrameListener self l wd
      | M_start \<Rightarrow> Freenect2Device_start self wd
      | M_stop \<Rightarrow> Freenect2Device_stop self wd
      | M_close \<Rightarrow> Freenect2Device_close self wd)"

text \<open>The native call a method stands for.\<close>

definition native_of :: "Freenect2Device \<Rightarrow> dev_method \<Rightarrow> native_call" where
  "native_of self m =
     (case m of
        M_getSerialNumber \<Rightarrow> Dev_getSerialNumber (dev_ptr self)
      | M_getFirmwareVersion \<Rightarrow> Dev_getFirmwareVersion (dev_ptr self)
      | M_getColorCameraParams \<Rightarrow> Dev_getColorCameraParams (dev_ptr self)
      | M_getIrCameraParams \<Rightarrow> Dev_getIrCameraParams (dev_ptr self)
      | M_setColorFrameListener l \<Rightarrow>
          Dev_setColorFrameListener (dev_ptr self) (listener_ptr_alias l)
      | M_setIrAndDepthFrameListener l \<Rightarrow>
          Dev_setIrAndDepthFrameListener (dev_ptr self) (listener_ptr_alias l)
      | M_start \<Rightarrow> Dev_start (dev_ptr self)
      | M_stop \<Rightarrow> Dev_stop (dev_ptr self)
      | M_close \<Rightarrow> Dev_close (dev_ptr self))"

text \<open>
  A program that calls the methods one after the other; an exception ends it, as an
  uncaught exception would. The result is the exception, if any, and the world.
\<close>

fun Freenect2Device_run ::
  "Freenect2Device \<Rightarrow> dev_method list \<Rightarrow> world \<Rightarrow> error option \<times> world" where
  "Freenect2Device_run self [] wd = (None, wd)"
| "Freenect2Device_run self (m # ms) wd =
     (case Freenect2Device_call self m wd of
        (Inl e, wd') \<Rightarrow> (Some e, wd')
      | (Inr r, wd') \<Rightarrow> Freenect2Device_run self ms wd')"

subsection \<open>Freenect2\<close>

record Freenect2 =
  f2_ptr :: ptr

text \<open>
  The driver's \<open>openDevice\<close> and \<open>openDefaultDevice\<close> are the parameter \<open>native_open\<close>:
  given the call, it answers with a device pointer and the world it leaves.
\<close>

type_synonym native_open = "native_call \<Rightarrow> world \<Rightarrow> ptr \<times> world"

text \<open>
  \<open>Freenect2.__openDevice__intidx(self, int idx, PacketPipeline pipeline)\<close>. The
  pipeline object is mutable and shared with the caller, so it is returned with the
  device.
\<close>

definition Freenect2_openDevice_intidx ::
  "native_open \<Rightarrow> Freenect2 \<Rightarrow> int \<Rightarrow> PacketPipeline option \<Rightarrow> world
     \<Rightarrow> Freenect2Device \<times> PacketPipeline option \<times> world" where
  "Freenect2_openDevice_intidx native_open self idx pipeline0 wd =
     (case pipeline0 of
        None \<Rightarrow>
          (case native_open (F2_openDevice_idx (f2_ptr self) idx None) wd of
             (d, wd') \<Rightarrow> (\<lparr>dev_ptr = d\<rparr>, None, wd'))
      | Some pl \<Rightarrow>
          (case native_open
                  (F2_openDevice_idx (f2_ptr self) idx (Some (pipeline_ptr_alias pl))) wd of
             (d, wd') \<Rightarrow> (\<lparr>dev_ptr = d\<rparr>, Some (pl\<lparr>owned_by_device := True\<rparr>), wd')))"

text \<open>\<open>Freenect2.__openDevice__stridx(self, string serial, PacketPipeline pipeline)\<close>.\<close>

definition Freenect2_openDevice_stridx ::
  "native_open \<Rightarrow> Freenect2 \<Rightarrow> string \<Rightarrow> PacketPipeline option \<Rightarrow> world
     \<Rightarrow> Freenect2Device \<times> PacketPipeline option \<times> world" where
  "Freenect2_openDevice_stridx native_open self serial pipeline0 wd =
     (case pipeline0 of
        None \<Rightarrow>
          (case native_open (F2_openDevice_serial (f2_ptr self) serial None) wd of
             (d, wd') \<Rightarrow> (\<lparr>dev_ptr = d\<rparr>, None, wd'))
      | Some pl \<Rightarrow>
          (case native_open
                  (F2_openDevice_serial (f2_ptr self) serial (Some (pipeline_ptr_alias pl))) wd of
             (d, wd') \<Rightarrow> (\<lparr>dev_ptr = d\<rparr>, Some (pl\<lparr>owned_by_device := True\<rparr>), wd')))"

text \<open>
  The \<open>name\<close> argument of \<open>openDevice\<close>: a Python integer, a \<open>str\<close> (text), a
  \<open>bytes\<close>, or an object of any other type.
\<close>

datatype pyname = NameInt int | NameStr string | NameBytes string | NameOther

text \<open>
  \<open>Freenect2.openDevice(self, name, pipeline=None)\<close>. An integer name is coerced to the
  \<open>int\<close> parameter of the helper. A \<open>bytes\<close> name becomes the C++ string of the helper's
  \<open>string serial\<close> parameter; a \<open>str\<close> name passes the \<open>isinstance\<close> test but is no
  \<open>bytes\<close>, so its coercion to that parameter raises \<open>TypeError\<close> before the helper
  runs: the driver is not called and the pipeline is not touched.
\<close>

definition Freenect2_openDevice ::
  "native_open \<Rightarrow> Freenect2 \<Rightarrow> pyname \<Rightarrow> PacketPipeline option \<Rightarrow> world
     \<Rightarrow> (error + Freenect2Device) \<times> PacketPipeline option \<times> world" where
  "Freenect2_openDevice native_open self name pipeline0 wd =
     (case name of
        NameInt i \<Rightarrow>
          (case to_c_int i of
             Inl e \<Rightarrow> (Inl e, pipeline0, wd)
           | Inr idx \<Rightarrow>
               (case Freenect2_openDevice_intidx native_open self idx pipeline0 wd of
                  (dev, pl, wd') \<Rightarrow> (Inr dev, pl, wd')))
      | NameStr s \<Rightarrow> (Inl TypeError, pipeline0, wd)
      | NameBytes s \<Rightarrow>
          (case Freenect2_openDevice_stridx native_open self s pipeline0 wd of
             (dev, pl, wd') \<Rightarrow> (Inr dev, pl, wd'))
      | NameOther \<Rightarrow> (Inl ValueError, pipeline0, wd))"

text \<open>\<open>Freenect2.openDefaultDevice(self, pipeline=None)\<close>.\<close>

definition Freenect2_openDefaultDevice ::
  "native_open \<Rightarrow> Freenect2 \<Rightarrow> PacketPipeline option \<Rightarrow> world
     \<Rightarrow> (error + Freenect2Device) \<times> PacketPipeline option \<times> world" where
  "Freenect2_openDefaultDevice native_open self pipeline0 wd =
     (case pipeline0 of
        None \<Rightarrow>
          (case native_open (F2_openDefaultDevice (f2_ptr self) None) wd of
             (d, wd') \<Rightarrow> (Inr \<lparr>dev_ptr = d\<rparr>, None, wd'))
      | Some pl \<Rightarrow>
          (case native_open
                  (F2_openDefaultDevice (f2_ptr self) (Some (pipeline_ptr_alias pl))) wd of
             (d, wd') \<Rightarrow> (Inr \<lparr>dev_ptr = d\<rparr>, Some (pl\<lparr>owned_by_device := True\<rparr>), wd')))"

text \<open>
  The driver as the note on \<open>owned_by_device\<close> describes it: "once device is opened with
  pipeline, pipeline will be releaseed in the destructor of Freenect2DeviceImpl". Opening
  creates a native device at a fresh address and records the pipeline it was given; the
  device's destructor deletes that pipeline.
\<close>

definition pipeline_of_call :: "native_call \<Rightarrow> ptr" where
  "pipeline_of_call c =
     (case c of
        F2_openDevice_idx f i (Some p) \<Rightarrow> p
      | F2_openDevice_serial f s (Some p) \<Rightarrow> p
      | F2_openDefaultDevice f (Some p) \<Rightarrow> p
      | _ \<Rightarrow> NULL)"

definition owning_open :: native_open where
  "owning_open c wd =
     (let d = next_addr wd in
      (Addr d,
       wd\<lparr>next_addr := d + 1, calls := calls wd @ [c],
          device_pipeline := (device_pipeline wd)(d \<mapsto> pipeline_of_call c)\<rparr>))"

definition native_device_destructor :: "ptr \<Rightarrow> world \<Rightarrow> world" where
  "native_device_destructor d wd =
     (case d of
        NULL \<Rightarrow> wd
      | Addr a \<Rightarrow>
          (case device_pipeline wd a of
             None \<Rightarrow> wd
           | Some p \<Rightarrow> (delete_obj p wd)\<lparr>device_pipeline := (device_pipeline wd)(a := None)\<rparr>))"

subsection \<open>Names used in the statements\<close>

text \<open>
  The native key and the canonical lower-case name that belong to a member of
  \<open>FrameType\<close>.
\<close>

fun FrameType_native :: "FrameType \<Rightarrow> LibFreenect2FrameType" where
  "FrameType_native Color = LF2_Color"
| "FrameType_native Ir = LF2_Ir"
| "FrameType_native Depth = LF2_Depth"

fun FrameType_name :: "FrameType \<Rightarrow> string" where
  "FrameType_name Color = ''color''"
| "FrameType_name Ir = ''ir''"
| "FrameType_name Depth = ''depth''"

subsection \<open>Concrete objects\<close>

text \<open>
  An empty world; a world that holds one colour frame of 1920 by 1080 pixels at address
  0, as a listener would have received it; a frame map with that frame as its only
  entry; a listener, a device, a registration object and a \<open>Freenect2\<close> object at
  addresses of their own.
\<close>

definition world0 :: world where
  "world0 = \<lparr>next_addr = 0, frames = Map.empty, deleted = [], calls = [],
             device_pipeline = Map.empty\<rparr>"

definition frame1 :: native_frame where
  "frame1 = \<lparr>width = 1920, height = 1080, bytes_per_pixel = 4, data = 1\<rparr>"

definition world1 :: world where
  "world1 = \<lparr>next_addr = 2, frames = [0 \<mapsto> frame1], deleted = [], calls = [],
             device_pipeline = Map.empty\<rparr>"

definition frame_map1 :: FrameMap where
  "frame_map1 = \<lparr>internal_frame_map = [LF2_Color \<mapsto> Addr 0], fm_take_ownership = False\<rparr>"

definition listener1 :: SyncMultiFrameListener where
  "listener1 = \<lparr>listener_ptr = Addr 7, listener_ptr_alias = Addr 7\<rparr>"

definition device1 :: Freenect2Device where
  "device1 = \<lparr>dev_ptr = Addr 5\<rparr>"

definition registration1 :: Registration where
  "registration1 = \<lparr>reg_ptr = Addr 8\<rparr>"

definition freenect2_1 :: Freenect2 where
  "freenect2_1 = \<lparr>f2_ptr = Addr 9\<rparr>"

text \<open>
  A world for registration: the colour frame at address 0, a depth frame of 512 by 424
  pixels at address 2, and two frames allocated by \<open>Frame(512, 424, 4)\<close> at addresses
  4 and 6.
\<close>

definition frame2 :: native_frame where
  "frame2 = \<lparr>width = 512, height = 424, bytes_per_pixel = 4, data = 3\<rparr>"

definition world2 :: world where
  "world2 = \<lparr>next_addr = 8,
             frames = [0 \<mapsto> frame1, 2 \<mapsto> frame2, 4 \<mapsto> frame2\<lparr>data := 5\<rparr>,
                       6 \<mapsto> frame2\<lparr>data := 7\<rparr>],
             deleted = [], calls = [], device_pipeline = Map.empty\<rparr>"

text \<open>
  The pipeline object \<open>CpuPacketPipeline()\<close> makes in the empty world, and the world it
  leaves.
\<close>

definition pipeline1 :: PacketPipeline where
  "pipeline1 = \<lparr>pipeline_class = CpuPacketPipeline_class, pipeline = Addr 0,
                 pipeline_ptr_alias = Addr 0, owned_by_device = False\<rparr>"

definition world3 :: world where
  "world3 = \<lparr>next_addr = 1, frames = Map.empty, deleted = [], calls = [],
             device_pipeline = Map.empty\<rparr>"

text \<open>A world in which the native device of \<open>device1\<close> is live, opened with no pipeline.\<close>

definition world4 :: world where
  "world4 = \<lparr>next_addr = 6, frames = Map.empty, deleted = [], calls = [],
             device_pipeline = [5 \<mapsto> NULL]\<rparr>"

text \<open>
  The native frame \<open>Frame(1, 2**62, 0, frame_type=1)\<close> allocates in the empty world, and
  the world it leaves.
\<close>

definition frame3 :: native_frame where
  "frame3 = \<lparr>width = 1, height = 2 ^ 62, bytes_per_pixel = 0, data = 1\<rparr>"

definition world5 :: world where
  "world5 = \<lparr>next_addr = 2, frames = [0 \<mapsto> frame3], deleted = [], calls = [],
             device_pipeline = Map.empty\<rparr>"

text \<open>A frame as \<open>Frame(w, h, b)\<close> leaves it, and one as \<open>Frame()\<close> leaves it.\<close>

definition owned_frame :: "nat \<Rightarrow> Frame" where
  "owned_frame a = \<lparr>ptr = Addr a, take_ownership = True, frame_type = - 1\<rparr>"

definition borrowed_frame :: "ptr \<Rightarrow> int \<Rightarrow> Frame" where
  "borrowed_frame p ft = \<lparr>ptr = p, take_ownership = False, frame_type = ft\<rparr>"

section \<open>Properties\<close>

subsection \<open>Construction and destruction of a Frame\<close>

lemma Frame_construct_partial:
  "\<not> (w = None \<and> h = None \<and> b = None) \<Longrightarrow> \<not> (w \<noteq> None \<and> h \<noteq> None \<and> b \<noteq> None)
     \<Longrightarrow> Frame_construct w h b ft wd = (Inl AssertionError, wd)"
  by (auto simp: Frame_construct_def Frame_cinit_def Frame_dealloc_def Frame_zero_def Let_def)

lemma Frame_construct_none:
  "Frame_construct None None None ft wd =
     (Inr \<lparr>ptr = NULL, take_ownership = False, frame_type = ft\<rparr>, wd)"
  by (simp add: Frame_construct_def Frame_cinit_def Frame_zero_def)

lemma Frame_construct_Inr:
  "Frame_construct w h b ft wd = (Inr f, wd') \<Longrightarrow>
     take_ownership f = (w \<noteq> None \<and> h \<noteq> None \<and> b \<noteq> None)"
  by (auto simp: Frame_construct_def Frame_cinit_def Frame_zero_def Let_def
      split: sum.splits prod.splits if_splits option.splits)

lemma Frame_construct_all:
  "Frame_construct (Some w) (Some h) (Some b) ft wd = (Inr f, wd') \<Longrightarrow>
     f = \<lparr>ptr = Addr (next_addr wd), take_ownership = True, frame_type = ft\<rparr>
     \<and> deleted wd' = deleted wd \<and> frames wd' (next_addr wd) \<noteq> None"
  by (auto simp: Frame_construct_def Frame_cinit_def Frame_zero_def Let_def new_Frame_def
      split: sum.splits prod.splits if_splits option.splits)

text \<open>
  Claim C10. \<open>Frame\<close> takes \<open>width\<close>, \<open>height\<close> and \<open>bytes_per_pixel\<close> all or none: a
  call that gives some but not all of them raises \<open>AssertionError\<close> and leaves the world
  as it was (no native frame is allocated); \<open>__cinit__\<close> leaves \<open>take_ownership\<close> true
  exactly when all three were given, so a frame that was constructed owns its buffer
  exactly in that case, and \<open>Frame()\<close> with none of them is the frame with a null
  pointer that owns nothing.
\<close>

theorem Frame_cinit_all_or_none:
  "(\<not> (w = None \<and> h = None \<and> b = None) \<and> \<not> (w \<noteq> None \<and> h \<noteq> None \<and> b \<noteq> None) \<longrightarrow>
      Frame_construct w h b ft wd = (Inl AssertionError, wd))
   \<and> take_ownership (fst (snd (Frame_cinit w h b ft Frame_zero wd))) =
       (w \<noteq> None \<and> h \<noteq> None \<and> b \<noteq> None)
   \<and> (Frame_construct w h b ft wd = (Inr f, wd') \<longrightarrow>
        take_ownership f = (w \<noteq> None \<and> h \<noteq> None \<and> b \<noteq> None))
   \<and> Frame_construct None None None ft wd =
       (Inr \<lparr>ptr = NULL, take_ownership = False, frame_type = ft\<rparr>, wd)"
proof (intro conjI impI)
  assume "\<not> (w = None \<and> h = None \<and> b = None) \<and> \<not> (w \<noteq> None \<and> h \<noteq> None \<and> b \<noteq> None)"
  then show "Frame_construct w h b ft wd = (Inl AssertionError, wd)"
    by (simp add: Frame_construct_partial)
next
  show "take_ownership (fst (snd (Frame_cinit w h b ft Frame_zero wd))) =
       (w \<noteq> None \<and> h \<noteq> None \<and> b \<noteq> None)"
    by (auto simp: Frame_cinit_def Frame_zero_def Let_def split: sum.splits prod.splits)
next
  assume "Frame_construct w h b ft wd = (Inr f, wd')"
  then show "take_ownership f = (w \<noteq> None \<and> h \<noteq> None \<and> b \<noteq> None)"
    by (rule Frame_construct_Inr)
next
  show "Frame_construct None None None ft wd =
       (Inr \<lparr>ptr = NULL, take_ownership = False, frame_type = ft\<rparr>, wd)"
    by (rule Frame_construct_none)
qed

text \<open>
  The theorem at three calls: \<open>Frame(width=512)\<close> fails; \<open>Frame(512, 424, 4)\<close> gives a
  frame that owns a native frame at the first free address; \<open>Frame()\<close> gives one that
  owns nothing.
\<close>

theorem Frame_cinit_all_or_none_witness:
  "Frame_construct (Some 512) None None (- 1) world0 = (Inl AssertionError, world0)
   \<and> fst (Frame_construct (Some 512) (Some 424) (Some 4) (- 1) world0) = Inr (owned_frame 0)
   \<and> take_ownership (owned_frame 0)
   \<and> fst (Frame_construct None None None (- 1) world0) = Inr (borrowed_frame NULL (- 1))
   \<and> \<not> take_ownership (borrowed_frame NULL (- 1))"
proof -
  have cf: "fst (Frame_construct (Some 512) (Some 424) (Some 4) (- 1) world0) =
      Inr (owned_frame 0)"
    by (simp add: Frame_construct_def Frame_cinit_def Frame_zero_def new_Frame_def
        to_size_t_def world0_def owned_frame_def Let_def)
  then have c: "Frame_construct (Some 512) (Some 424) (Some 4) (- 1) world0 =
      (Inr (owned_frame 0), snd (Frame_construct (Some 512) (Some 424) (Some 4) (- 1) world0))"
    by (metis prod.collapse)
  note partial = Frame_cinit_all_or_none [where w = "Some 512" and h = None and b = None
      and ft = "- 1" and wd = world0]
  note full = Frame_cinit_all_or_none [where w = "Some 512" and h = "Some 424"
      and b = "Some 4" and ft = "- 1" and wd = world0 and f = "owned_frame 0"
      and wd' = "snd (Frame_construct (Some 512) (Some 424) (Some 4) (- 1) world0)"]
  from partial
  have 1: "Frame_construct (Some 512) None None (- 1) world0 = (Inl AssertionError, world0)"
    by simp
  from full c have 2: "take_ownership (owned_frame 0)" by simp
  from full
  have 3: "fst (Frame_construct None None None (- 1) world0) = Inr (borrowed_frame NULL (- 1))"
    by (simp add: borrowed_frame_def)
  have 4: "\<not> take_ownership (borrowed_frame NULL (- 1))" by (simp add: borrowed_frame_def)
  show ?thesis using 1 cf 2 3 4 by blast
qed

lemma Frame_op_world: "snd (Frame_op val f opn wd) = wd"
  by (cases opn) (simp_all add: Frame_op_def)

lemma Frame_ops_world: "Frame_ops val f opns wd = wd"
  by (induction opns arbitrary: wd) (simp_all add: Frame_op_world)

lemma Frame_dealloc_borrowed: "\<not> take_ownership g \<Longrightarrow> Frame_dealloc g wd = wd"
  by (simp add: Frame_dealloc_def)

lemma Frame_dealloc_owned:
  "take_ownership f \<Longrightarrow> ptr f = Addr a \<Longrightarrow> deleted (Frame_dealloc f wd) = deleted wd @ [a]"
  by (simp add: Frame_dealloc_def delete_obj_def)

text \<open>
  Claim C4. A frame constructed with \<open>width\<close>, \<open>height\<close> and \<open>bytes_per_pixel\<close> owns the
  native frame allocated for it at the first free address. Whatever the caller does with
  the object, nothing is deleted while it lives, and over its whole life (the
  operations, then the one \<open>__dealloc__\<close>) exactly that address is deleted, once. A
  frame constructed without them owns nothing: whatever pointer it is given afterwards,
  its life leaves the world as it was.
\<close>

theorem Frame_buffer_freed_once:
  "(Frame_construct (Some w) (Some h) (Some b) ft wd = (Inr f, wd1) \<longrightarrow>
      take_ownership f \<and> ptr f = Addr (next_addr wd)
      \<and> deleted wd1 = deleted wd
      \<and> deleted (Frame_ops val f opns wd1) = deleted wd
      \<and> deleted (Frame_lifetime val f opns wd1) = deleted wd @ [next_addr wd]
      \<and> (next_addr wd \<notin> set (deleted wd) \<longrightarrow>
           count_list (deleted (Frame_lifetime val f opns wd1)) (next_addr wd) = 1))
   \<and> (Frame_construct None None None ft wd = (Inr g, wd2) \<longrightarrow>
        \<not> take_ownership g \<and> wd2 = wd
        \<and> Frame_lifetime val (g\<lparr>ptr := p\<rparr>) opns wd3 = wd3)"
proof (intro conjI impI)
  assume c: "Frame_construct (Some w) (Some h) (Some b) ft wd = (Inr f, wd1)"
  from Frame_construct_all [OF c]
  have f: "f = \<lparr>ptr = Addr (next_addr wd), take_ownership = True, frame_type = ft\<rparr>"
    and d: "deleted wd1 = deleted wd" by simp_all
  show "take_ownership f" "ptr f = Addr (next_addr wd)" using f by simp_all
  show "deleted wd1 = deleted wd" by (rule d)
  show "deleted (Frame_ops val f opns wd1) = deleted wd" by (simp add: Frame_ops_world d)
  show l: "deleted (Frame_lifetime val f opns wd1) = deleted wd @ [next_addr wd]"
    using f by (simp add: Frame_lifetime_def Frame_ops_world Frame_dealloc_owned d)
  assume "next_addr wd \<notin> set (deleted wd)"
  then show "count_list (deleted (Frame_lifetime val f opns wd1)) (next_addr wd) = 1"
    by (simp add: l count_list_0_iff)
next
  assume c: "Frame_construct None None None ft wd = (Inr g, wd2)"
  then have g: "g = \<lparr>ptr = NULL, take_ownership = False, frame_type = ft\<rparr>" and w: "wd2 = wd"
    by (simp_all add: Frame_construct_none)
  show "\<not> take_ownership g" using g by simp
  show "wd2 = wd" by (rule w)
  show "Frame_lifetime val (g\<lparr>ptr := p\<rparr>) opns wd3 = wd3"
    using g by (simp add: Frame_lifetime_def Frame_ops_world Frame_dealloc_borrowed)
qed

text \<open>
  The theorem at \<open>Frame(512, 424, 4)\<close> in the empty world, read three times and then
  dropped: address 0 is deleted once. And at a frame from \<open>Frame(frame_type=1)\<close> that was
  given the pointer of the colour frame of \<open>world1\<close>: dropping it deletes nothing.
\<close>

theorem Frame_buffer_freed_once_witness:
  "fst (Frame_construct (Some 512) (Some 424) (Some 4) (- 1) world0) = Inr (owned_frame 0)
   \<and> deleted (Frame_lifetime FrameType_flags (owned_frame 0)
        [Get_width, Astype np_float32, Asarray]
        (snd (Frame_construct (Some 512) (Some 424) (Some 4) (- 1) world0))) = [0]
   \<and> count_list (deleted (Frame_lifetime FrameType_flags (owned_frame 0)
        [Get_width, Astype np_float32, Asarray]
        (snd (Frame_construct (Some 512) (Some 424) (Some 4) (- 1) world0)))) 0 = 1
   \<and> Frame_construct None None None 1 world0 = (Inr (borrowed_frame NULL 1), world0)
   \<and> Frame_lifetime FrameType_flags (borrowed_frame (Addr 0) 1) [Asarray] world1 = world1"
proof -
  have cf: "fst (Frame_construct (Some 512) (Some 424) (Some 4) (- 1) world0) =
      Inr (owned_frame 0)"
    by (simp add: Frame_construct_def Frame_cinit_def Frame_zero_def new_Frame_def
        to_size_t_def world0_def owned_frame_def Let_def)
  then have c: "Frame_construct (Some 512) (Some 424) (Some 4) (- 1) world0 =
      (Inr (owned_frame 0), snd (Frame_construct (Some 512) (Some 424) (Some 4) (- 1) world0))"
    by (metis prod.collapse)
  have n: "Frame_construct None None None 1 world0 = (Inr (borrowed_frame NULL 1), world0)"
    by (simp add: Frame_construct_none borrowed_frame_def)
  have b: "(borrowed_frame NULL 1)\<lparr>ptr := Addr 0\<rparr> = borrowed_frame (Addr 0) 1"
    by (simp add: borrowed_frame_def)
  have w: "next_addr world0 = 0" "deleted world0 = []" by (simp_all add: world0_def)
  note owned = Frame_buffer_freed_once [where w = 512 and h = 424 and b = 4 and ft = "- 1"
      and wd = world0 and f = "owned_frame 0"
      and ?wd1.0 = "snd (Frame_construct (Some 512) (Some 424) (Some 4) (- 1) world0)"
      and val = FrameType_flags and opns = "[Get_width, Astype np_float32, Asarray]"]
  note borrowed = Frame_buffer_freed_once [where w = 512 and h = 424 and b = 4 and ft = 1
      and wd = world0 and g = "borrowed_frame NULL 1" and ?wd2.0 = world0
      and val = FrameType_flags and opns = "[Asarray]" and p = "Addr 0" and ?wd3.0 = world1]
  from owned c
  have 1: "deleted (Frame_lifetime FrameType_flags (owned_frame 0)
        [Get_width, Astype np_float32, Asarray]
        (snd (Frame_construct (Some 512) (Some 424) (Some 4) (- 1) world0))) = [0]"
    and 2: "count_list (deleted (Frame_lifetime FrameType_flags (owned_frame 0)
        [Get_width, Astype np_float32, Asarray]
        (snd (Frame_construct (Some 512) (Some 424) (Some 4) (- 1) world0)))) 0 = 1"
    by (simp_all add: w)
  from borrowed n
  have 3: "Frame_lifetime FrameType_flags (borrowed_frame (Addr 0) 1) [Asarray] world1 = world1"
    by (simp add: b)
  show ?thesis using cf 1 2 n 3 by blast
qed

subsection \<open>Array views of a Frame\<close>

lemma npy_intp_small: "n < 2 ^ 63 \<Longrightarrow> npy_intp n = int n"
proof -
  assume a: "n < 2 ^ 63"
  then have b: "int n < 2 ^ 63" by (metis of_nat_less_iff of_nat_numeral of_nat_power)
  then have "int n mod 2 ^ 64 = int n" by simp
  then show ?thesis using b by (simp add: npy_intp_def)
qed

lemma npy_intp_big: "2 ^ 63 \<le> n \<Longrightarrow> n < 2 ^ 64 \<Longrightarrow> npy_intp n < 0"
proof -
  assume a: "2 ^ 63 \<le> n" and b: "n < 2 ^ 64"
  from a have a': "2 ^ 63 \<le> int n" by (metis of_nat_le_iff of_nat_numeral of_nat_power)
  from b have b': "int n < 2 ^ 64" by (metis of_nat_less_iff of_nat_numeral of_nat_power)
  then have "int n mod 2 ^ 64 = int n" by simp
  then show ?thesis using a' b' by (simp add: npy_intp_def)
qed

lemma nbytes_uint8:
  fixes h w :: int
  assumes "0 \<le> h" "0 \<le> w"
  shows "array_nbytes 1 [h, w, 4] =
     (if 4 * max 1 h * max 1 w < 2 ^ 63 then Inr (4 * max 1 h * max 1 w) else Inl ValueError)"
proof (cases "h = 0 \<or> w = 0")
  case True
  then show ?thesis using assms by (auto simp: max_def)
next
  case False
  then have pos: "1 \<le> h" "1 \<le> w" using assms by simp_all
  define p where "p = h * w"
  have hp: "h \<le> p" using pos mult_left_mono [of 1 w h] by (simp add: p_def)
  have e: "h * w = p" "4 * h * w = 4 * p" by (simp_all add: p_def)
  have m: "max 1 h = h" "max 1 w = w" using pos by simp_all
  show ?thesis using pos hp by (simp add: e m)
qed

lemma nbytes_float32:
  fixes h w :: int
  assumes "0 \<le> h" "0 \<le> w"
  shows "array_nbytes 4 [h, w] =
     (if 4 * max 1 h * max 1 w < 2 ^ 63 then Inr (4 * max 1 h * max 1 w) else Inl ValueError)"
proof (cases "h = 0 \<or> w = 0")
  case True
  then show ?thesis using assms by (auto simp: max_def)
next
  case False
  then have pos: "1 \<le> h" "1 \<le> w" using assms by simp_all
  define p where "p = h * w"
  have hp: "h \<le> p" using pos mult_left_mono [of 1 w h] by (simp add: p_def)
  have e: "4 * h * w = 4 * p" by (simp add: p_def)
  have m: "max 1 h = h" "max 1 w = w" using pos by simp_all
  show ?thesis using pos hp by (simp add: e m)
qed


lemma int_bound:
  "(4 * max 1 (int h) * max 1 (int w) < 2 ^ 63) = (4 * max 1 h * max 1 w < (2 ^ 63 :: nat))"
proof -
  have "4 * max 1 (int h) * max 1 (int w) = int (4 * max 1 h * max 1 w)"
    by (simp add: max_def)
  moreover have "(2 ^ 63 :: int) = int (2 ^ 63)" by simp
  ultimately show ?thesis by (metis of_nat_less_iff)
qed

lemma bound_small:
  assumes "4 * max 1 h * max 1 w < (2 ^ 63 :: nat)"
  shows "h < 2 ^ 63" and "w < 2 ^ 63"
proof -
  have "h \<le> max 1 h * max 1 w" using mult_le_mono [of h "max 1 h" 1 "max 1 w"] by simp
  then show "h < 2 ^ 63" using assms by simp
  have "w \<le> max 1 h * max 1 w" using mult_le_mono [of 1 "max 1 h" w "max 1 w"] by simp
  then show "w < 2 ^ 63" using assms by simp
qed

lemma fits_uint8:
  assumes "deref (ptr f) wd = Some fr" and "4 * max 1 (height fr) * max 1 (width fr) < 2 ^ 63"
  shows "Frame_uint8_data f wd =
      Inr \<lparr>nd = 3, dims = [int (height fr), int (width fr), 4],
           typenum = NPY_UINT8, array_data = data fr\<rparr>"
proof -
  note s = bound_small [OF assms(2)]
  have "4 * max 1 (int (height fr)) * max 1 (int (width fr)) < 2 ^ 63"
    using assms(2) by (simp only: int_bound)
  then have "array_nbytes 1 [int (height fr), int (width fr), 4] =
      Inr (4 * max 1 (int (height fr)) * max 1 (int (width fr)))"
    using nbytes_uint8 [of "int (height fr)" "int (width fr)"]
    by (simp del: array_nbytes.simps)
  then show ?thesis
    using assms(1) s
    by (simp add: Frame_uint8_data_def PyArray_SimpleNewFromData_def itemsize_def npy_intp_small
        del: array_nbytes.simps)
qed

lemma fits_float32:
  assumes "deref (ptr f) wd = Some fr" and "4 * max 1 (height fr) * max 1 (width fr) < 2 ^ 63"
  shows "Frame_float32_data f wd =
      Inr \<lparr>nd = 2, dims = [int (height fr), int (width fr)],
           typenum = NPY_FLOAT32, array_data = data fr\<rparr>"
proof -
  note s = bound_small [OF assms(2)]
  have "4 * max 1 (int (height fr)) * max 1 (int (width fr)) < 2 ^ 63"
    using assms(2) by (simp only: int_bound)
  then have "array_nbytes 4 [int (height fr), int (width fr)] =
      Inr (4 * max 1 (int (height fr)) * max 1 (int (width fr)))"
    using nbytes_float32 [of "int (height fr)" "int (width fr)"]
    by (simp del: array_nbytes.simps)
  then show ?thesis
    using assms(1) s
    by (simp add: Frame_float32_data_def PyArray_SimpleNewFromData_def itemsize_def
        npy_intp_small del: array_nbytes.simps)
qed

lemma nbytes_too_big:
  assumes "h < 2 ^ 64" and "w < 2 ^ 64" and "\<not> 4 * max 1 h * max 1 w < (2 ^ 63 :: nat)"
  shows "array_nbytes 1 [npy_intp h, npy_intp w, 4] = Inl ValueError"
    and "array_nbytes 4 [npy_intp h, npy_intp w] = Inl ValueError"
proof -
  consider (hbig) "2 ^ 63 \<le> h" | (wbig) "h < 2 ^ 63" "2 ^ 63 \<le> w"
    | (small) "h < 2 ^ 63" "w < 2 ^ 63" by linarith
  then have "array_nbytes 1 [npy_intp h, npy_intp w, 4] = Inl ValueError
      \<and> array_nbytes 4 [npy_intp h, npy_intp w] = Inl ValueError"
  proof cases
    case hbig
    from npy_intp_big [OF hbig assms(1)] show ?thesis by simp
  next
    case wbig
    from npy_intp_big [OF wbig(2) assms(2)] have n: "npy_intp w < 0" .
    have "0 \<le> int h" by simp
    moreover have "int h \<le> 2 ^ 63 - 1" using wbig(1)
      by (metis of_nat_less_iff of_nat_numeral of_nat_power zle_diff1_eq)
    ultimately show ?thesis using n by (simp add: npy_intp_small [OF wbig(1)])
  next
    case small
    have "\<not> 4 * max 1 (int h) * max 1 (int w) < 2 ^ 63"
      using assms(3) by (simp only: int_bound not_False_eq_True)
    then show ?thesis
      using nbytes_uint8 [of "int h" "int w"] nbytes_float32 [of "int h" "int w"]
      by (simp add: npy_intp_small [OF small(1)] npy_intp_small [OF small(2)]
          del: array_nbytes.simps)
  qed
  then show "array_nbytes 1 [npy_intp h, npy_intp w, 4] = Inl ValueError"
    and "array_nbytes 4 [npy_intp h, npy_intp w] = Inl ValueError" by simp_all
qed

text \<open>
  Claim C9, as amended. For a frame whose pointer refers to a live native frame whose
  view fits an array (4 times height times width, a dimension of zero counted as one,
  is below \<open>2^63\<close> bytes): when its \<open>frame_type\<close> is \<open>Color\<close>, \<open>asarray()\<close> is the
  three-dimensional \<open>uint8\<close> view of shape height by width by 4 over the frame's data
  buffer; when it is \<open>Ir\<close> or \<open>Depth\<close>, \<open>asarray()\<close> is the two-dimensional
  \<open>float32\<close> view of shape height by width; \<open>astype(np.uint8)\<close> and
  \<open>astype(np.float32)\<close> are those two views. For a live frame whose view does not
  fit, numpy refuses and both conversions raise \<open>ValueError\<close>. For a frame whose pointer
  is \<open>NULL\<close> or refers to no live frame there is no view: the conversions read through
  the dead pointer.
\<close>

theorem asarray_views:
  "(FrameType_ok val \<and> deref (ptr f) wd = Some fr
      \<and> 4 * max 1 (height fr) * max 1 (width fr) < 2 ^ 63 \<longrightarrow>
        (frame_type f = val Color \<longrightarrow>
            Frame_asarray val f wd =
              Inr \<lparr>nd = 3, dims = [int (height fr), int (width fr), 4],
                   typenum = NPY_UINT8, array_data = data fr\<rparr>)
       \<and> (frame_type f = val Ir \<or> frame_type f = val Depth \<longrightarrow>
            Frame_asarray val f wd =
              Inr \<lparr>nd = 2, dims = [int (height fr), int (width fr)],
                   typenum = NPY_FLOAT32, array_data = data fr\<rparr>)
       \<and> Frame_astype f np_uint8 wd =
              Inr \<lparr>nd = 3, dims = [int (height fr), int (width fr), 4],
                   typenum = NPY_UINT8, array_data = data fr\<rparr>
       \<and> Frame_astype f np_float32 wd =
              Inr \<lparr>nd = 2, dims = [int (height fr), int (width fr)],
                   typenum = NPY_FLOAT32, array_data = data fr\<rparr>)
   \<and> (deref (ptr f) wd = Some fr \<and> height fr < 2 ^ 64 \<and> width fr < 2 ^ 64
        \<and> \<not> 4 * max 1 (height fr) * max 1 (width fr) < 2 ^ 63 \<longrightarrow>
          Frame_astype f np_uint8 wd = Inl ValueError
        \<and> Frame_astype f np_float32 wd = Inl ValueError)
   \<and> (deref (ptr f) wd = None \<longrightarrow>
          Frame_astype f np_uint8 wd = Inl InvalidPointerAccess
        \<and> Frame_astype f np_float32 wd = Inl InvalidPointerAccess
        \<and> (FrameType_ok val
             \<and> (frame_type f = val Color \<or> frame_type f = val Ir \<or> frame_type f = val Depth)
             \<longrightarrow> Frame_asarray val f wd = Inl InvalidPointerAccess))"
proof (intro conjI impI)
  assume a: "FrameType_ok val \<and> deref (ptr f) wd = Some fr
      \<and> 4 * max 1 (height fr) * max 1 (width fr) < 2 ^ 63"
  then have ok: "FrameType_ok val" and d: "deref (ptr f) wd = Some fr"
    and b: "4 * max 1 (height fr) * max 1 (width fr) < 2 ^ 63" by simp_all
  show u: "Frame_astype f np_uint8 wd =
      Inr \<lparr>nd = 3, dims = [int (height fr), int (width fr), 4],
           typenum = NPY_UINT8, array_data = data fr\<rparr>"
    by (simp add: Frame_astype_def fits_uint8 [OF d b])
  show fl: "Frame_astype f np_float32 wd =
      Inr \<lparr>nd = 2, dims = [int (height fr), int (width fr)],
           typenum = NPY_FLOAT32, array_data = data fr\<rparr>"
    by (simp add: Frame_astype_def fits_float32 [OF d b])
  {
    assume "frame_type f = val Color"
    then have "Frame_asarray val f wd = Frame_astype f np_uint8 wd"
      using ok by (simp add: Frame_asarray_def FrameType_ok_def)
    then show "Frame_asarray val f wd =
        Inr \<lparr>nd = 3, dims = [int (height fr), int (width fr), 4],
             typenum = NPY_UINT8, array_data = data fr\<rparr>"
      by (simp add: u)
  }
  {
    assume "frame_type f = val Ir \<or> frame_type f = val Depth"
    then have "Frame_asarray val f wd = Frame_astype f np_float32 wd"
      using ok by (auto simp: Frame_asarray_def FrameType_ok_def)
    then show "Frame_asarray val f wd =
        Inr \<lparr>nd = 2, dims = [int (height fr), int (width fr)],
             typenum = NPY_FLOAT32, array_data = data fr\<rparr>"
      by (simp add: fl)
  }
next
  assume a: "deref (ptr f) wd = Some fr \<and> height fr < 2 ^ 64 \<and> width fr < 2 ^ 64
        \<and> \<not> 4 * max 1 (height fr) * max 1 (width fr) < 2 ^ 63"
  then have d: "deref (ptr f) wd = Some fr" and h: "height fr < 2 ^ 64"
    and w: "width fr < 2 ^ 64" and b: "\<not> 4 * max 1 (height fr) * max 1 (width fr) < 2 ^ 63"
    by simp_all
  note n = nbytes_too_big [OF h w b]
  show "Frame_astype f np_uint8 wd = Inl ValueError"
    by (simp add: Frame_astype_def Frame_uint8_data_def PyArray_SimpleNewFromData_def
        itemsize_def d n del: array_nbytes.simps)
  show "Frame_astype f np_float32 wd = Inl ValueError"
    by (simp add: Frame_astype_def Frame_float32_data_def PyArray_SimpleNewFromData_def
        itemsize_def d n del: array_nbytes.simps)
next
  assume d: "deref (ptr f) wd = None"
  show u: "Frame_astype f np_uint8 wd = Inl InvalidPointerAccess"
    by (simp add: Frame_astype_def Frame_uint8_data_def d)
  show fl: "Frame_astype f np_float32 wd = Inl InvalidPointerAccess"
    by (simp add: Frame_astype_def Frame_float32_data_def d)
  assume "FrameType_ok val
      \<and> (frame_type f = val Color \<or> frame_type f = val Ir \<or> frame_type f = val Depth)"
  then show "Frame_asarray val f wd = Inl InvalidPointerAccess"
    using u fl by (auto simp: Frame_asarray_def FrameType_ok_def)
qed

text \<open>
  The theorem at the frame of \<open>world1\<close> (1920 by 1080), seen once as a colour frame and
  once as a depth frame; at the frame of \<open>world5\<close> (height \<open>2^62\<close>, width 1), whose view
  would take \<open>2^64\<close> bytes; and at a depth frame over \<open>NULL\<close>.
\<close>

theorem asarray_views_witness:
  "FrameType_ok FrameType_flags
   \<and> deref (Addr 0) world1 = Some frame1
   \<and> Frame_asarray FrameType_flags (borrowed_frame (Addr 0) 1) world1 =
       Inr \<lparr>nd = 3, dims = [1080, 1920, 4], typenum = NPY_UINT8, array_data = 1\<rparr>
   \<and> Frame_asarray FrameType_flags (borrowed_frame (Addr 0) 4) world1 =
       Inr \<lparr>nd = 2, dims = [1080, 1920], typenum = NPY_FLOAT32, array_data = 1\<rparr>
   \<and> Frame_astype (borrowed_frame (Addr 0) 4) np_uint8 world1 =
       Inr \<lparr>nd = 3, dims = [1080, 1920, 4], typenum = NPY_UINT8, array_data = 1\<rparr>
   \<and> deref (Addr 0) world5 = Some frame3
   \<and> Frame_astype (borrowed_frame (Addr 0) 1) np_uint8 world5 = Inl ValueError
   \<and> Frame_astype (borrowed_frame (Addr 0) 1) np_float32 world5 = Inl ValueError
   \<and> deref NULL world1 = None
   \<and> Frame_asarray FrameType_flags (borrowed_frame NULL 4) world1 = Inl InvalidPointerAccess"
proof -
  have ok: "FrameType_ok FrameType_flags" by (simp add: FrameType_ok_def)
  have d: "deref (Addr 0) world1 = Some frame1" by (simp add: deref_def world1_def)
  have d1: "deref (ptr (borrowed_frame (Addr 0) 1)) world1 = Some frame1"
    and d4: "deref (ptr (borrowed_frame (Addr 0) 4)) world1 = Some frame1"
    using d by (simp_all add: borrowed_frame_def)
  have b: "4 * max 1 (height frame1) * max 1 (width frame1) < 2 ^ 63"
    by (simp add: frame1_def)
  have t1: "frame_type (borrowed_frame (Addr 0) 1) = FrameType_flags Color"
    and t4: "frame_type (borrowed_frame (Addr 0) 4) = FrameType_flags Depth"
    and tn: "frame_type (borrowed_frame NULL 4) = FrameType_flags Depth"
    by (simp_all add: borrowed_frame_def)
  have v: "int (height frame1) = 1080" "int (width frame1) = 1920" "data frame1 = 1"
    by (simp_all add: frame1_def)
  from asarray_views [where val = FrameType_flags and f = "borrowed_frame (Addr 0) 1"
      and wd = world1 and fr = frame1] ok d1 b t1
  have 1: "Frame_asarray FrameType_flags (borrowed_frame (Addr 0) 1) world1 =
       Inr \<lparr>nd = 3, dims = [1080, 1920, 4], typenum = NPY_UINT8, array_data = 1\<rparr>"
    by (simp add: v)
  from asarray_views [where val = FrameType_flags and f = "borrowed_frame (Addr 0) 4"
      and wd = world1 and fr = frame1] ok d4 b t4
  have 2: "Frame_asarray FrameType_flags (borrowed_frame (Addr 0) 4) world1 =
       Inr \<lparr>nd = 2, dims = [1080, 1920], typenum = NPY_FLOAT32, array_data = 1\<rparr>"
    and 3: "Frame_astype (borrowed_frame (Addr 0) 4) np_uint8 world1 =
       Inr \<lparr>nd = 3, dims = [1080, 1920, 4], typenum = NPY_UINT8, array_data = 1\<rparr>"
    by (simp_all add: v)
  have d5: "deref (Addr 0) world5 = Some frame3" by (simp add: deref_def world5_def)
  then have d5': "deref (ptr (borrowed_frame (Addr 0) 1)) world5 = Some frame3"
    by (simp add: borrowed_frame_def)
  have h5: "height frame3 < 2 ^ 64" and w5: "width frame3 < 2 ^ 64"
    and b5: "\<not> 4 * max 1 (height frame3) * max 1 (width frame3) < 2 ^ 63"
    by (simp_all add: frame3_def)
  from asarray_views [where f = "borrowed_frame (Addr 0) 1" and wd = world5 and fr = frame3]
    d5' h5 w5 b5
  have 4: "Frame_astype (borrowed_frame (Addr 0) 1) np_uint8 world5 = Inl ValueError"
    and 5: "Frame_astype (borrowed_frame (Addr 0) 1) np_float32 world5 = Inl ValueError"
    by blast+
  have dn: "deref NULL world1 = None" by (simp add: deref_def)
  then have dn': "deref (ptr (borrowed_frame NULL 4)) world1 = None"
    by (simp add: borrowed_frame_def)
  from asarray_views [where val = FrameType_flags and f = "borrowed_frame NULL 4"
      and wd = world1] ok dn' tn
  have 6: "Frame_asarray FrameType_flags (borrowed_frame NULL 4) world1 = Inl InvalidPointerAccess"
    by blast
  show ?thesis using ok d 1 2 3 d5 4 5 dn 6 by blast
qed

text \<open>
  The claim as first stated fails for frames the module itself hands out.
  \<open>Frame(frame_type=1)\<close> is a colour frame over \<open>NULL\<close>, and so is the frame that
  \<open>frames['depth']\<close> returns for an unset channel, of type depth: \<open>asarray()\<close> on either
  reads through the null pointer and returns no view. \<open>Frame(1, 2**62, 0,
  frame_type=1)\<close> is a colour frame over a live native frame: \<open>asarray()\<close> raises
  \<open>ValueError\<close>, the view being too big for an array.
\<close>

theorem asarray_views_counterexample:
  "fst (Frame_construct None None None 1 world0) = Inr (borrowed_frame NULL 1)
   \<and> Frame_asarray FrameType_flags (borrowed_frame NULL 1) world0 = Inl InvalidPointerAccess
   \<and> fst (FrameMap_getitem FrameType_flags frame_map1 (KStr ''depth'') world1) =
       Inr (borrowed_frame NULL 4)
   \<and> Frame_asarray FrameType_flags (borrowed_frame NULL 4) world1 = Inl InvalidPointerAccess
   \<and> fst (Frame_construct (Some 1) (Some (2 ^ 62)) (Some 0) 1 world0) =
       Inr \<lparr>ptr = Addr 0, take_ownership = True, frame_type = 1\<rparr>
   \<and> frames (snd (Frame_construct (Some 1) (Some (2 ^ 62)) (Some 0) 1 world0)) 0 = Some frame3
   \<and> Frame_asarray FrameType_flags \<lparr>ptr = Addr 0, take_ownership = True, frame_type = 1\<rparr>
        (snd (Frame_construct (Some 1) (Some (2 ^ 62)) (Some 0) 1 world0)) = Inl ValueError"
proof -
  have 1: "fst (Frame_construct None None None 1 world0) = Inr (borrowed_frame NULL 1)"
    by (simp add: Frame_construct_none borrowed_frame_def)
  have 2: "Frame_asarray FrameType_flags (borrowed_frame NULL 1) world0 = Inl InvalidPointerAccess"
    and 4: "Frame_asarray FrameType_flags (borrowed_frame NULL 4) world1 = Inl InvalidPointerAccess"
    by (simp_all add: Frame_asarray_def Frame_astype_def Frame_uint8_data_def
        Frame_float32_data_def deref_def borrowed_frame_def)
  have 3: "fst (FrameMap_getitem FrameType_flags frame_map1 (KStr ''depth'') world1) =
       Inr (borrowed_frame NULL 4)"
    by (simp add: FrameMap_getitem_def getitem_key_def str_to_frame_type_def
        str_to_int_frame_type_def lower_def lower_char_def to_c_int_def
        intenum_to_frame_type_def Frame_construct_none frame_map1_def borrowed_frame_def Let_def)
  have c: "Frame_construct (Some 1) (Some (2 ^ 62)) (Some 0) 1 world0 =
      (Inr \<lparr>ptr = Addr 0, take_ownership = True, frame_type = 1\<rparr>,
       world0\<lparr>next_addr := 2, frames := [0 \<mapsto> frame3]\<rparr>)"
    by (simp add: Frame_construct_def Frame_cinit_def Frame_zero_def new_Frame_def
        to_size_t_def world0_def frame3_def Let_def)
  have 7: "Frame_asarray FrameType_flags \<lparr>ptr = Addr 0, take_ownership = True, frame_type = 1\<rparr>
        (world0\<lparr>next_addr := 2, frames := [0 \<mapsto> frame3]\<rparr>) = Inl ValueError"
    by (simp add: Frame_asarray_def Frame_astype_def Frame_uint8_data_def deref_def
        PyArray_SimpleNewFromData_def itemsize_def npy_intp_def frame3_def)
  have 5: "fst (Frame_construct (Some 1) (Some (2 ^ 62)) (Some 0) 1 world0) =
       Inr \<lparr>ptr = Addr 0, take_ownership = True, frame_type = 1\<rparr>"
    and 6: "frames (snd (Frame_construct (Some 1) (Some (2 ^ 62)) (Some 0) 1 world0)) 0 =
       Some frame3"
    and 8: "Frame_asarray FrameType_flags \<lparr>ptr = Addr 0, take_ownership = True, frame_type = 1\<rparr>
        (snd (Frame_construct (Some 1) (Some (2 ^ 62)) (Some 0) 1 world0)) = Inl ValueError"
    by (simp_all only: c fst_conv snd_conv 7) simp
  show ?thesis using 1 2 3 4 5 6 8 by blast
qed

text \<open>
  Claim C8, as amended. The failures of the two conversions are not \<open>FormatError\<close>:
  \<open>astype\<close> with a data type other than \<open>np.uint8\<close> and \<open>np.float32\<close> raises
  \<open>ValueError\<close>; \<open>asarray\<close> on a frame whose \<open>frame_type\<close> is negative (the unset
  \<open>-1\<close> among them) raises \<open>ValueError\<close>; \<open>asarray\<close> on a frame whose \<open>frame_type\<close> is
  not negative and is none of \<open>Color\<close>, \<open>Ir\<close>, \<open>Depth\<close> raises \<open>AssertionError\<close>.
\<close>

theorem astype_asarray_errors:
  "(dt \<noteq> np_uint8 \<and> dt \<noteq> np_float32 \<longrightarrow> Frame_astype f dt wd = Inl ValueError)
   \<and> (frame_type f < 0 \<longrightarrow> Frame_asarray val f wd = Inl ValueError)
   \<and> (0 \<le> frame_type f \<and> frame_type f \<noteq> val Color \<and> frame_type f \<noteq> val Ir
        \<and> frame_type f \<noteq> val Depth \<longrightarrow> Frame_asarray val f wd = Inl AssertionError)"
  by (simp add: Frame_astype_def Frame_asarray_def)

text \<open>
  The theorem at \<open>astype\<close> with a type named int32, at a frame with the unset type
  \<open>-1\<close>, and at a frame with type 3 (no member of the enum has the value 3).
\<close>

theorem astype_asarray_errors_witness:
  "np_other ''int32'' \<noteq> np_uint8 \<and> np_other ''int32'' \<noteq> np_float32
   \<and> Frame_astype (borrowed_frame (Addr 0) 1) (np_other ''int32'') world1 = Inl ValueError
   \<and> Frame_asarray FrameType_flags (borrowed_frame (Addr 0) (- 1)) world1 = Inl ValueError
   \<and> Frame_asarray FrameType_flags (borrowed_frame (Addr 0) 3) world1 = Inl AssertionError"
proof -
  have t: "frame_type (borrowed_frame (Addr 0) (- 1)) = - 1"
    "frame_type (borrowed_frame (Addr 0) 3) = 3"
    by (simp_all add: borrowed_frame_def)
  from astype_asarray_errors [where dt = "np_other ''int32''"
      and f = "borrowed_frame (Addr 0) 1" and wd = world1]
  have 1: "Frame_astype (borrowed_frame (Addr 0) 1) (np_other ''int32'') world1 = Inl ValueError"
    by simp
  from astype_asarray_errors [where f = "borrowed_frame (Addr 0) (- 1)" and wd = world1
      and val = FrameType_flags]
  have 2: "Frame_asarray FrameType_flags (borrowed_frame (Addr 0) (- 1)) world1 = Inl ValueError"
    by (simp add: t)
  from astype_asarray_errors [where f = "borrowed_frame (Addr 0) 3" and wd = world1
      and val = FrameType_flags]
  have 3: "Frame_asarray FrameType_flags (borrowed_frame (Addr 0) 3) world1 = Inl AssertionError"
    by (simp add: t)
  show ?thesis using 1 2 3 by simp
qed

text \<open>
  The claim as first stated fails: none of the three failures is a \<open>FormatError\<close>.
\<close>

theorem format_error_counterexample:
  "Frame_astype (borrowed_frame (Addr 0) 1) (np_other ''int32'') world1 \<noteq> Inl FormatError
   \<and> Frame_asarray FrameType_flags (borrowed_frame (Addr 0) (- 1)) world1 \<noteq> Inl FormatError
   \<and> Frame_asarray FrameType_flags (borrowed_frame (Addr 0) 3) world1 \<noteq> Inl FormatError"
  by (simp add: Frame_astype_def Frame_asarray_def borrowed_frame_def)

subsection \<open>Lookup in a FrameMap\<close>

lemma to_c_int_ok: "FrameType_ok val \<Longrightarrow> to_c_int (val t) = Inr (val t)"
  by (cases t) (simp_all add: FrameType_ok_def to_c_int_def)

lemma intenum_ok:
  "FrameType_ok val \<Longrightarrow> intenum_to_frame_type val (val t) = Inr (FrameType_native t)"
  by (cases t) (simp_all add: FrameType_ok_def intenum_to_frame_type_def)

lemma lower_name: "lower (FrameType_name t) = FrameType_name t"
  by (cases t) (simp_all add: lower_def lower_char_def)

lemma str_to_int_name: "str_to_int_frame_type (FrameType_name t) = Inr t"
  by (cases t) (simp_all add: str_to_int_frame_type_def lower_name [of Color, simplified]
      lower_name [of Ir, simplified] lower_name [of Depth, simplified])

lemma getitem_key_enum:
  "FrameType_ok val \<Longrightarrow> getitem_key val (KEnum t) = Inr (FrameType_native t, val t)"
  by (simp add: getitem_key_def to_c_int_ok intenum_ok)

lemma getitem_key_int:
  "FrameType_ok val \<Longrightarrow> getitem_key val (KInt (val t)) = Inr (FrameType_native t, val t)"
  by (simp add: getitem_key_def to_c_int_ok intenum_ok)

lemma getitem_key_str:
  "FrameType_ok val \<Longrightarrow>
     getitem_key val (KStr (FrameType_name t)) = Inr (FrameType_native t, val t)"
  by (simp add: getitem_key_def str_to_frame_type_def str_to_int_name to_c_int_ok intenum_ok)

text \<open>Once the key is accepted, nothing in \<open>__getitem__\<close> can fail.\<close>

lemma getitem_of_key:
  "getitem_key val key = Inr (k, n) \<Longrightarrow>
     FrameMap_getitem val fm key wd =
       (Inr \<lparr>ptr = (case internal_frame_map fm k of None \<Rightarrow> NULL | Some p \<Rightarrow> p),
             take_ownership = False, frame_type = n\<rparr>,
        fm\<lparr>internal_frame_map := (internal_frame_map fm)
             (k \<mapsto> (case internal_frame_map fm k of None \<Rightarrow> NULL | Some p \<Rightarrow> p))\<rparr>,
        wd)"
  by (simp add: FrameMap_getitem_def Frame_construct_none Let_def)

lemma getitem_of_key_fail:
  "getitem_key val key = Inl e \<Longrightarrow> FrameMap_getitem val fm key wd = (Inl e, fm, wd)"
  by (simp add: FrameMap_getitem_def)

lemma getitem_key_unknown_int:
  "k \<noteq> val Color \<Longrightarrow> k \<noteq> val Ir \<Longrightarrow> k \<noteq> val Depth \<Longrightarrow> isl (getitem_key val (KInt k))"
  by (simp add: getitem_key_def to_c_int_def intenum_to_frame_type_def)

lemma getitem_key_unknown_str:
  "lower s \<noteq> ''color'' \<Longrightarrow> lower s \<noteq> ''ir'' \<Longrightarrow> lower s \<noteq> ''depth'' \<Longrightarrow>
     isl (getitem_key val (KStr s))"
  by (simp add: getitem_key_def str_to_frame_type_def str_to_int_frame_type_def)

lemma getitem_isl:
  "isl (getitem_key val key) \<Longrightarrow>
     isl (fst (FrameMap_getitem val fm key wd)) \<and> snd (FrameMap_getitem val fm key wd) = (fm, wd)"
  by (cases "getitem_key val key") (simp_all add: getitem_of_key_fail)

text \<open>
  What the helpers raise for an integer or a string that names no channel, and for an
  integer beyond a C \<open>int\<close>.
\<close>

lemma getitem_unknown_keys:
  "fst (FrameMap_getitem FrameType_flags frame_map1 (KInt 3) world1) = Inl ValueError
   \<and> fst (FrameMap_getitem FrameType_flags frame_map1 (KStr ''rgb'') world1) = Inl ValueError
   \<and> fst (FrameMap_getitem FrameType_flags frame_map1 (KInt (2 ^ 40)) world1) = Inl OverflowError"
  by (simp add: FrameMap_getitem_def getitem_key_def to_c_int_def intenum_to_frame_type_def
      str_to_frame_type_def str_to_int_frame_type_def lower_def lower_char_def)

text \<open>
  Claim C7. In a frame map that holds a frame pointer for a channel, the lookup by the
  member of \<open>FrameType\<close>, by the canonical lower-case string and by the raw integer
  value all succeed with the same result: a frame that does not own its buffer, holds
  that pointer and has the channel's integer as its \<open>frame_type\<close>; the map is unchanged.
\<close>

theorem getitem_key_forms_agree:
  assumes "FrameType_ok val" and "internal_frame_map fm (FrameType_native t) = Some p"
  shows "FrameMap_getitem val fm (KEnum t) wd =
           (Inr \<lparr>ptr = p, take_ownership = False, frame_type = val t\<rparr>, fm, wd)
       \<and> FrameMap_getitem val fm (KStr (FrameType_name t)) wd =
           (Inr \<lparr>ptr = p, take_ownership = False, frame_type = val t\<rparr>, fm, wd)
       \<and> FrameMap_getitem val fm (KInt (val t)) wd =
           (Inr \<lparr>ptr = p, take_ownership = False, frame_type = val t\<rparr>, fm, wd)"
proof -
  have m: "(internal_frame_map fm)(FrameType_native t \<mapsto> p) = internal_frame_map fm"
    using assms(2) by (rule map_upd_triv)
  show ?thesis
    using assms
    by (simp add: getitem_of_key [OF getitem_key_enum] getitem_of_key [OF getitem_key_str]
        getitem_of_key [OF getitem_key_int] m)
qed

text \<open>
  The theorem at the colour entry of \<open>frame_map1\<close>: \<open>frames[FrameType.Color]\<close>,
  \<open>frames['color']\<close> and \<open>frames[1]\<close>.
\<close>

theorem getitem_key_forms_agree_witness:
  "FrameType_ok FrameType_flags
   \<and> internal_frame_map frame_map1 LF2_Color = Some (Addr 0)
   \<and> FrameMap_getitem FrameType_flags frame_map1 (KEnum Color) world1 =
       (Inr (borrowed_frame (Addr 0) 1), frame_map1, world1)
   \<and> FrameMap_getitem FrameType_flags frame_map1 (KStr ''color'') world1 =
       (Inr (borrowed_frame (Addr 0) 1), frame_map1, world1)
   \<and> FrameMap_getitem FrameType_flags frame_map1 (KInt 1) world1 =
       (Inr (borrowed_frame (Addr 0) 1), frame_map1, world1)"
proof -
  have ok: "FrameType_ok FrameType_flags" by (simp add: FrameType_ok_def)
  have e: "internal_frame_map frame_map1 LF2_Color = Some (Addr 0)"
    by (simp add: frame_map1_def)
  then have e': "internal_frame_map frame_map1 (FrameType_native Color) = Some (Addr 0)"
    by simp
  from getitem_key_forms_agree [OF ok e', of world1]
  have "FrameMap_getitem FrameType_flags frame_map1 (KEnum Color) world1 =
       (Inr (borrowed_frame (Addr 0) 1), frame_map1, world1)"
    and "FrameMap_getitem FrameType_flags frame_map1 (KStr ''color'') world1 =
       (Inr (borrowed_frame (Addr 0) 1), frame_map1, world1)"
    and "FrameMap_getitem FrameType_flags frame_map1 (KInt 1) world1 =
       (Inr (borrowed_frame (Addr 0) 1), frame_map1, world1)"
    by (simp_all add: borrowed_frame_def)
  with ok e show ?thesis by blast
qed

text \<open>
  Claim C6, as amended. A key that is neither an integer, a member of \<open>FrameType\<close> nor
  a string raises \<open>KeyError\<close>. An integer or a string that names none of \<open>Color\<close>,
  \<open>Ir\<close>, \<open>Depth\<close> raises an exception, and the map is as it was. A key that names a
  channel the map has no entry for does not fail: the lookup, by any of the three forms
  of the key, returns a frame whose pointer is \<open>NULL\<close> and leaves a \<open>NULL\<close> entry for
  the channel in the map.
\<close>

theorem getitem_failures:
  "FrameMap_getitem val fm KOther wd = (Inl KeyError, fm, wd)
   \<and> (k \<noteq> val Color \<and> k \<noteq> val Ir \<and> k \<noteq> val Depth \<longrightarrow>
        isl (fst (FrameMap_getitem val fm (KInt k) wd))
        \<and> snd (FrameMap_getitem val fm (KInt k) wd) = (fm, wd))
   \<and> (lower s \<noteq> ''color'' \<and> lower s \<noteq> ''ir'' \<and> lower s \<noteq> ''depth'' \<longrightarrow>
        isl (fst (FrameMap_getitem val fm (KStr s) wd))
        \<and> snd (FrameMap_getitem val fm (KStr s) wd) = (fm, wd))
   \<and> (FrameType_ok val \<and> internal_frame_map fm (FrameType_native t) = None \<longrightarrow>
        (\<forall>key \<in> {KEnum t, KInt (val t), KStr (FrameType_name t)}.
           FrameMap_getitem val fm key wd =
             (Inr \<lparr>ptr = NULL, take_ownership = False, frame_type = val t\<rparr>,
              fm\<lparr>internal_frame_map := (internal_frame_map fm)(FrameType_native t \<mapsto> NULL)\<rparr>,
              wd)))"
proof (intro conjI impI)
  show "FrameMap_getitem val fm KOther wd = (Inl KeyError, fm, wd)"
    by (simp add: FrameMap_getitem_def getitem_key_def)
next
  assume "k \<noteq> val Color \<and> k \<noteq> val Ir \<and> k \<noteq> val Depth"
  then have "isl (getitem_key val (KInt k))" by (simp add: getitem_key_unknown_int)
  from getitem_isl [OF this]
  show "isl (fst (FrameMap_getitem val fm (KInt k) wd))"
    and "snd (FrameMap_getitem val fm (KInt k) wd) = (fm, wd)" by simp_all
next
  assume "lower s \<noteq> ''color'' \<and> lower s \<noteq> ''ir'' \<and> lower s \<noteq> ''depth''"
  then have "isl (getitem_key val (KStr s))" by (simp add: getitem_key_unknown_str)
  from getitem_isl [OF this]
  show "isl (fst (FrameMap_getitem val fm (KStr s) wd))"
    and "snd (FrameMap_getitem val fm (KStr s) wd) = (fm, wd)" by simp_all
next
  assume a: "FrameType_ok val \<and> internal_frame_map fm (FrameType_native t) = None"
  then have ok: "FrameType_ok val" and n: "internal_frame_map fm (FrameType_native t) = None"
    by simp_all
  show "\<forall>key \<in> {KEnum t, KInt (val t), KStr (FrameType_name t)}.
           FrameMap_getitem val fm key wd =
             (Inr \<lparr>ptr = NULL, take_ownership = False, frame_type = val t\<rparr>,
              fm\<lparr>internal_frame_map := (internal_frame_map fm)(FrameType_native t \<mapsto> NULL)\<rparr>,
              wd)"
    using n
    by (simp add: getitem_of_key [OF getitem_key_enum [OF ok]]
        getitem_of_key [OF getitem_key_str [OF ok]] getitem_of_key [OF getitem_key_int [OF ok]])
qed

text \<open>
  The theorem at \<open>frame_map1\<close>, which has a colour entry only: a key of another type,
  the integer 3, the string \<open>rgb\<close>, and the depth channel by its string.
\<close>

theorem getitem_failures_witness:
  "FrameMap_getitem FrameType_flags frame_map1 KOther world1 = (Inl KeyError, frame_map1, world1)
   \<and> isl (fst (FrameMap_getitem FrameType_flags frame_map1 (KInt 3) world1))
   \<and> isl (fst (FrameMap_getitem FrameType_flags frame_map1 (KStr ''rgb'') world1))
   \<and> FrameType_ok FrameType_flags
   \<and> internal_frame_map frame_map1 LF2_Depth = None
   \<and> FrameMap_getitem FrameType_flags frame_map1 (KStr ''depth'') world1 =
       (Inr (borrowed_frame NULL 4),
        frame_map1\<lparr>internal_frame_map := (internal_frame_map frame_map1)(LF2_Depth \<mapsto> NULL)\<rparr>,
        world1)"
proof -
  have ok: "FrameType_ok FrameType_flags" by (simp add: FrameType_ok_def)
  have n: "internal_frame_map frame_map1 LF2_Depth = None" by (simp add: frame_map1_def)
  have l: "lower ''rgb'' = ''rgb''" by (simp add: lower_def lower_char_def)
  note t = getitem_failures [where val = FrameType_flags and fm = frame_map1 and wd = world1
      and k = 3 and s = "''rgb''" and t = Depth]
  from t have 1: "FrameMap_getitem FrameType_flags frame_map1 KOther world1 =
      (Inl KeyError, frame_map1, world1)" by simp
  from t have 2: "isl (fst (FrameMap_getitem FrameType_flags frame_map1 (KInt 3) world1))"
    by simp
  from t l have 3: "isl (fst (FrameMap_getitem FrameType_flags frame_map1 (KStr ''rgb'') world1))"
    by simp
  from t ok n have 4: "FrameMap_getitem FrameType_flags frame_map1 (KStr ''depth'') world1 =
       (Inr (borrowed_frame NULL 4),
        frame_map1\<lparr>internal_frame_map := (internal_frame_map frame_map1)(LF2_Depth \<mapsto> NULL)\<rparr>,
        world1)"
    by (simp add: borrowed_frame_def)
  show ?thesis using 1 2 3 ok n 4 by blast
qed

text \<open>
  The claim as first stated fails at a channel that is unset: \<open>frames['depth']\<close> on a
  map with a colour entry only raises nothing and returns a frame.
\<close>

theorem getitem_unset_channel_counterexample:
  "internal_frame_map frame_map1 LF2_Depth = None
   \<and> fst (FrameMap_getitem FrameType_flags frame_map1 (KStr ''depth'') world1) =
       Inr (borrowed_frame NULL 4)
   \<and> fst (FrameMap_getitem FrameType_flags frame_map1 (KStr ''depth'') world1) \<noteq> Inl KeyError"
  by (simp add: FrameMap_getitem_def getitem_key_def str_to_frame_type_def
      str_to_int_frame_type_def lower_def lower_char_def to_c_int_def
      intenum_to_frame_type_def Frame_construct_none frame_map1_def borrowed_frame_def Let_def)

lemma release_as_driver:
  "native_release (internal_frame_map fm)
       (wd\<lparr>calls := calls wd @ [Listener_release (listener_ptr l)]\<rparr>) = (m, wd1) \<Longrightarrow>
     SyncMultiFrameListener_release native_release l fm wd =
       (fm\<lparr>internal_frame_map := m\<rparr>, wd1)"
  by (simp add: SyncMultiFrameListener_release_def)

text \<open>
  Claim C5, as amended. \<open>SyncMultiFrameListener.release\<close> hands the native map to the
  driver's \<open>release\<close> and does nothing else: the frame map afterwards holds exactly the
  map the driver left, and the world is the one the driver left. A lookup after that,
  with a key that names a channel, does not fail: it returns a frame that holds the
  pointer the driver left in the map for the channel, or \<open>NULL\<close> when the driver left
  no entry. The wrapper invalidates nothing at release time and checks nothing at
  lookup time.
\<close>

theorem getitem_after_release:
  assumes "FrameType_ok val"
    and "native_release (internal_frame_map fm)
           (wd\<lparr>calls := calls wd @ [Listener_release (listener_ptr l)]\<rparr>) = (m, wd1)"
    and "key \<in> {KEnum t, KInt (val t), KStr (FrameType_name t)}"
  shows "SyncMultiFrameListener_release native_release l fm wd =
           (fm\<lparr>internal_frame_map := m\<rparr>, wd1)
       \<and> fst (FrameMap_getitem val
                (fst (SyncMultiFrameListener_release native_release l fm wd)) key
                (snd (SyncMultiFrameListener_release native_release l fm wd))) =
           Inr \<lparr>ptr = (case m (FrameType_native t) of None \<Rightarrow> NULL | Some p \<Rightarrow> p),
                take_ownership = False, frame_type = val t\<rparr>"
proof -
  have k: "getitem_key val key = Inr (FrameType_native t, val t)"
    using assms(1,3) by (auto simp: getitem_key_enum getitem_key_int getitem_key_str)
  have r: "SyncMultiFrameListener_release native_release l fm wd =
      (fm\<lparr>internal_frame_map := m\<rparr>, wd1)"
    using assms(2) by (rule release_as_driver)
  show ?thesis by (simp add: r getitem_of_key [OF k])
qed

lemma release_frame_map1:
  "SyncMultiFrameListener_release nulling_release listener1 frame_map1 world1 =
     (frame_map1\<lparr>internal_frame_map := [LF2_Color \<mapsto> NULL]\<rparr>,
      world1\<lparr>frames := Map.empty, deleted := [0], calls := [Listener_release (Addr 7)]\<rparr>)"
  by (simp add: SyncMultiFrameListener_release_def nulling_release_def release_entry_def
      delete_obj_def frame_map1_def world1_def listener1_def)

text \<open>
  The theorem at \<open>frame_map1\<close>, released twice over: by a driver that deletes the frames
  and sets their entries to \<open>NULL\<close> (the colour frame is deleted, and \<open>frames['color']\<close>
  returns a frame with a null pointer), and by a driver that leaves the map as it is
  (\<open>frames['color']\<close> returns a frame with the pointer that was there before).
\<close>

theorem getitem_after_release_witness:
  "FrameType_ok FrameType_flags
   \<and> KStr ''color'' \<in> {KEnum Color, KInt (FrameType_flags Color), KStr (FrameType_name Color)}
   \<and> nulling_release (internal_frame_map frame_map1)
        (world1\<lparr>calls := calls world1 @ [Listener_release (listener_ptr listener1)]\<rparr>) =
       ([LF2_Color \<mapsto> NULL],
        world1\<lparr>frames := Map.empty, deleted := [0], calls := [Listener_release (Addr 7)]\<rparr>)
   \<and> fst (FrameMap_getitem FrameType_flags
        (fst (SyncMultiFrameListener_release nulling_release listener1 frame_map1 world1))
        (KStr ''color'')
        (snd (SyncMultiFrameListener_release nulling_release listener1 frame_map1 world1))) =
       Inr (borrowed_frame NULL 1)
   \<and> fst (FrameMap_getitem FrameType_flags
        (fst (SyncMultiFrameListener_release (\<lambda>m w. (m, w)) listener1 frame_map1 world1))
        (KStr ''color'')
        (snd (SyncMultiFrameListener_release (\<lambda>m w. (m, w)) listener1 frame_map1 world1))) =
       Inr (borrowed_frame (Addr 0) 1)"
proof -
  have ok: "FrameType_ok FrameType_flags" by (simp add: FrameType_ok_def)
  have k: "KStr ''color'' \<in>
      {KEnum Color, KInt (FrameType_flags Color), KStr (FrameType_name Color)}"
    by simp
  have n: "nulling_release (internal_frame_map frame_map1)
        (world1\<lparr>calls := calls world1 @ [Listener_release (listener_ptr listener1)]\<rparr>) =
       ([LF2_Color \<mapsto> NULL],
        world1\<lparr>frames := Map.empty, deleted := [0], calls := [Listener_release (Addr 7)]\<rparr>)"
    by (simp add: nulling_release_def release_entry_def delete_obj_def frame_map1_def
        world1_def listener1_def)
  have i: "(\<lambda>m w. (m, w)) (internal_frame_map frame_map1)
        (world1\<lparr>calls := calls world1 @ [Listener_release (listener_ptr listener1)]\<rparr>) =
       (internal_frame_map frame_map1,
        world1\<lparr>calls := calls world1 @ [Listener_release (listener_ptr listener1)]\<rparr>)"
    by simp
  from getitem_after_release [where val = FrameType_flags and native_release = nulling_release
      and fm = frame_map1 and wd = world1 and l = listener1 and key = "KStr ''color''"
      and t = Color and m = "[LF2_Color \<mapsto> NULL]"
      and ?wd1.0 = "world1\<lparr>frames := Map.empty, deleted := [0],
                            calls := [Listener_release (Addr 7)]\<rparr>", OF ok n k, THEN conjunct2]
  have 1: "fst (FrameMap_getitem FrameType_flags
        (fst (SyncMultiFrameListener_release nulling_release listener1 frame_map1 world1))
        (KStr ''color'')
        (snd (SyncMultiFrameListener_release nulling_release listener1 frame_map1 world1))) =
       Inr (borrowed_frame NULL 1)"
    by (simp add: borrowed_frame_def)
  from getitem_after_release [where val = FrameType_flags
      and native_release = "\<lambda>m w. (m, w)"
      and fm = frame_map1 and wd = world1 and l = listener1 and key = "KStr ''color''"
      and t = Color and m = "internal_frame_map frame_map1"
      and ?wd1.0 = "world1\<lparr>calls := calls world1 @
                            [Listener_release (listener_ptr listener1)]\<rparr>", OF ok i k, THEN conjunct2]
  have 2: "fst (FrameMap_getitem FrameType_flags
        (fst (SyncMultiFrameListener_release (\<lambda>m w. (m, w)) listener1 frame_map1 world1))
        (KStr ''color'')
        (snd (SyncMultiFrameListener_release (\<lambda>m w. (m, w)) listener1 frame_map1 world1))) =
       Inr (borrowed_frame (Addr 0) 1)"
    by (simp add: borrowed_frame_def frame_map1_def)
  show ?thesis using ok k n 1 2 by blast
qed

text \<open>
  The claim as first stated fails: after the release above, the lookup of the colour
  entry is not an error.
\<close>

theorem getitem_after_release_counterexample:
  "\<not> isl (fst (FrameMap_getitem FrameType_flags
        (fst (SyncMultiFrameListener_release nulling_release listener1 frame_map1 world1))
        (KStr ''color'')
        (snd (SyncMultiFrameListener_release nulling_release listener1 frame_map1 world1))))
   \<and> fst (FrameMap_getitem FrameType_flags
        (fst (SyncMultiFrameListener_release nulling_release listener1 frame_map1 world1))
        (KEnum Color)
        (snd (SyncMultiFrameListener_release nulling_release listener1 frame_map1 world1))) =
       Inr (borrowed_frame NULL 1)"
  by (simp add: release_frame_map1 FrameMap_getitem_def getitem_key_def str_to_frame_type_def
      str_to_int_frame_type_def lower_def lower_char_def to_c_int_def
      intenum_to_frame_type_def Frame_construct_none borrowed_frame_def Let_def)

subsection \<open>Freenect2Device\<close>

lemma call_forwards:
  "device_live (dev_ptr dev) wd \<Longrightarrow>
     \<not> isl (fst (Freenect2Device_call dev m wd))
     \<and> snd (Freenect2Device_call dev m wd) = wd\<lparr>calls := calls wd @ [native_of dev m]\<rparr>"
  by (cases m)
    (simp_all add: Freenect2Device_call_def native_of_def Let_def
      Freenect2Device_getSerialNumber_def Freenect2Device_getFirmwareVersion_def
      Freenect2Device_getColorCameraParams_def Freenect2Device_getIrCameraParams_def
      Freenect2Device_setColorFrameListener_def Freenect2Device_setIrAndDepthFrameListener_def
      Freenect2Device_start_def Freenect2Device_stop_def Freenect2Device_close_def)

lemma call_dead:
  "\<not> device_live (dev_ptr dev) wd \<Longrightarrow>
     Freenect2Device_call dev m wd = (Inl InvalidPointerAccess, wd)"
  by (cases m)
    (simp_all add: Freenect2Device_call_def
      Freenect2Device_getSerialNumber_def Freenect2Device_getFirmwareVersion_def
      Freenect2Device_getColorCameraParams_def Freenect2Device_getIrCameraParams_def
      Freenect2Device_setColorFrameListener_def Freenect2Device_setIrAndDepthFrameListener_def
      Freenect2Device_start_def Freenect2Device_stop_def Freenect2Device_close_def)

text \<open>A forwarded call leaves the device as live as it was.\<close>

lemma live_after_call:
  "device_live p (wd\<lparr>calls := cs\<rparr>) = device_live p wd"
  by (cases p) (simp_all add: device_live_def)

lemma run_forwards:
  "device_live (dev_ptr dev) wd \<Longrightarrow>
     Freenect2Device_run dev ms wd = (None, wd\<lparr>calls := calls wd @ map (native_of dev) ms\<rparr>)"
proof (induction ms arbitrary: wd)
  case Nil
  show ?case by simp
next
  case (Cons m ms)
  obtain r wd' where c: "Freenect2Device_call dev m wd = (r, wd')"
    by (cases "Freenect2Device_call dev m wd")
  with call_forwards [OF Cons.prems, of m]
  have r: "\<not> isl r" and w: "wd' = wd\<lparr>calls := calls wd @ [native_of dev m]\<rparr>" by simp_all
  from r obtain v where v: "r = Inr v" by (cases r) simp_all
  have l: "device_live (dev_ptr dev) wd'" using Cons.prems by (simp add: w live_after_call)
  show ?case by (simp add: c v Cons.IH [OF l]) (simp add: w)
qed

text \<open>
  Claim C1, as amended. A \<open>Freenect2Device\<close> holds the native pointer and nothing
  else: it tracks no lifecycle state and never raises \<open>StateError\<close> or
  \<open>UseAfterCloseError\<close>. When its pointer refers to a live native device, every method,
  in every state, raises nothing and forwards exactly its one call to the native
  device; so every sequence of method calls, in any order, runs to its end and forwards
  every call, those after \<open>start()\<close> and after \<open>close()\<close> as well. When its pointer is
  \<open>NULL\<close> or refers to no live device, a method reads through the dead pointer:
  nothing is forwarded and no exception of the module is raised.
\<close>

theorem device_methods_forward:
  "(device_live (dev_ptr dev) wd \<longrightarrow>
      \<not> isl (fst (Freenect2Device_call dev m wd))
      \<and> snd (Freenect2Device_call dev m wd) = wd\<lparr>calls := calls wd @ [native_of dev m]\<rparr>
      \<and> Freenect2Device_run dev ms wd =
          (None, wd\<lparr>calls := calls wd @ map (native_of dev) ms\<rparr>))
   \<and> (\<not> device_live (dev_ptr dev) wd \<longrightarrow>
        Freenect2Device_call dev m wd = (Inl InvalidPointerAccess, wd))
   \<and> fst (Freenect2Device_call dev m wd) \<noteq> Inl StateError
   \<and> fst (Freenect2Device_call dev m wd) \<noteq> Inl UseAfterCloseError"
proof (cases "device_live (dev_ptr dev) wd")
  case True
  from call_forwards [OF True, of m] run_forwards [OF True, of ms] True
  show ?thesis by auto
next
  case False
  from call_dead [OF False, of m] False show ?thesis by simp
qed

text \<open>
  The theorem at \<open>device1\<close> in \<open>world4\<close>, where its native device is live: the program
  \<open>start(); setColorFrameListener(l); close(); getSerialNumber()\<close> runs to its end and
  all four calls reach the device. And at a \<open>Freenect2Device()\<close> that was never opened:
  \<open>start()\<close> goes through the null pointer.
\<close>

theorem device_methods_forward_witness:
  "device_live (dev_ptr device1) world4
   \<and> Freenect2Device_run device1
        [M_start, M_setColorFrameListener listener1, M_close, M_getSerialNumber] world4 =
       (None, world4\<lparr>calls := [Dev_start (Addr 5), Dev_setColorFrameListener (Addr 5) (Addr 7),
                                 Dev_close (Addr 5), Dev_getSerialNumber (Addr 5)]\<rparr>)
   \<and> \<not> device_live (dev_ptr \<lparr>dev_ptr = NULL\<rparr>) world4
   \<and> Freenect2Device_call \<lparr>dev_ptr = NULL\<rparr> M_start world4 = (Inl InvalidPointerAccess, world4)"
proof -
  have l: "device_live (dev_ptr device1) world4"
    by (simp add: device_live_def device1_def world4_def)
  have d: "\<not> device_live (dev_ptr \<lparr>dev_ptr = NULL\<rparr>) world4"
    by (simp add: device_live_def)
  from device_methods_forward [where dev = device1 and wd = world4
      and ms = "[M_start, M_setColorFrameListener listener1, M_close, M_getSerialNumber]"] l
  have 1: "Freenect2Device_run device1
        [M_start, M_setColorFrameListener listener1, M_close, M_getSerialNumber] world4 =
       (None, world4\<lparr>calls := [Dev_start (Addr 5), Dev_setColorFrameListener (Addr 5) (Addr 7),
                                 Dev_close (Addr 5), Dev_getSerialNumber (Addr 5)]\<rparr>)"
    by (simp add: native_of_def device1_def listener1_def world4_def)
  from device_methods_forward [where dev = "\<lparr>dev_ptr = NULL\<rparr>" and wd = world4 and m = M_start] d
  have 2: "Freenect2Device_call \<lparr>dev_ptr = NULL\<rparr> M_start world4 =
      (Inl InvalidPointerAccess, world4)"
    by blast
  show ?thesis using l 1 d 2 by blast
qed

text \<open>
  The claim as first stated fails: on a live device, \<open>setColorFrameListener\<close> after
  \<open>start()\<close> returns \<open>None\<close> and reaches the native device, and so does
  \<open>getSerialNumber\<close> after \<open>close()\<close>; neither raises \<open>StateError\<close> or
  \<open>UseAfterCloseError\<close>.
\<close>

theorem lifecycle_not_enforced_counterexample:
  "fst (Freenect2Device_setColorFrameListener device1 listener1
          (snd (Freenect2Device_start device1 world4))) = Inr PyNone
   \<and> calls (snd (Freenect2Device_setColorFrameListener device1 listener1
          (snd (Freenect2Device_start device1 world4))))
       = [Dev_start (Addr 5), Dev_setColorFrameListener (Addr 5) (Addr 7)]
   \<and> fst (Freenect2Device_getSerialNumber device1
          (snd (Freenect2Device_close device1 world4)))
       = Inr (NativeResult (Dev_getSerialNumber (Addr 5)))
   \<and> calls (snd (Freenect2Device_getSerialNumber device1
          (snd (Freenect2Device_close device1 world4))))
       = [Dev_close (Addr 5), Dev_getSerialNumber (Addr 5)]"
  by (simp add: Freenect2Device_setColorFrameListener_def Freenect2Device_start_def
      Freenect2Device_getSerialNumber_def Freenect2Device_close_def device_live_def
      device1_def listener1_def world4_def Let_def)

subsection \<open>Registration.apply\<close>

text \<open>With the ownership flags as the asserts want them, the call reaches the driver.\<close>

lemma apply_forwards:
  assumes "\<not> take_ownership rgb" "\<not> take_ownership depth" "take_ownership undistored"
    "take_ownership registered" "bigdepth = None"
  shows "Registration_apply native_apply self rgb depth undistored registered enable_filter
           bigdepth wd =
         (Inr (), native_apply (reg_ptr self)
            \<lparr>arg_rgb = ptr rgb, arg_depth = ptr depth, arg_undistorted = ptr undistored,
             arg_registered = ptr registered, arg_enable_filter = enable_filter,
             arg_bigdepth = NULL\<rparr>
            (wd\<lparr>calls := calls wd @ [Reg_apply (reg_ptr self)
               \<lparr>arg_rgb = ptr rgb, arg_depth = ptr depth, arg_undistorted = ptr undistored,
                arg_registered = ptr registered, arg_enable_filter = enable_filter,
                arg_bigdepth = NULL\<rparr>]\<rparr>))"
  using assms by (simp add: Registration_apply_def Let_def)

lemma apply_scenario:
  "fst (Registration_apply copying_apply registration1 (borrowed_frame (Addr 0) 1)
          (borrowed_frame (Addr 2) 4) (owned_frame 4) (owned_frame 6) True None world2) = Inr ()
   \<and> length (calls (snd (Registration_apply copying_apply registration1
          (borrowed_frame (Addr 0) 1) (borrowed_frame (Addr 2) 4) (owned_frame 4)
          (owned_frame 6) True None world2))) = 1"
  by (simp add: Registration_apply_def copying_apply_def deref_def borrowed_frame_def
      owned_frame_def world2_def Let_def)

text \<open>
  Claim C2, as amended. When \<open>rgb\<close> or \<open>depth\<close> owns its buffer, or \<open>undistored\<close>,
  \<open>registered\<close> or a given \<open>bigdepth\<close> does not, \<open>apply\<close> raises \<open>AssertionError\<close>
  (not \<open>OwnershipError\<close>) and computes nothing: whatever the native registration
  function would do, it is not called, and the world (the output frames with it) is as
  it was.
\<close>

theorem apply_rejects_wrong_ownership:
  assumes "take_ownership rgb \<or> take_ownership depth \<or> \<not> take_ownership undistored
           \<or> \<not> take_ownership registered
           \<or> (\<exists>bd. bigdepth = Some bd \<and> \<not> take_ownership bd)"
  shows "Registration_apply native_apply self rgb depth undistored registered enable_filter
           bigdepth wd = (Inl AssertionError, wd)"
  using assms by (auto simp: Registration_apply_def)

text \<open>
  The theorem at a \<open>registered\<close> frame made by \<open>Frame()\<close>, and at a \<open>bigdepth\<close> frame
  made by \<open>Frame()\<close>, the other frames being as required.
\<close>

theorem apply_rejects_wrong_ownership_witness:
  "\<not> take_ownership (borrowed_frame NULL (- 1))
   \<and> Registration_apply copying_apply registration1 (borrowed_frame (Addr 0) 1)
        (borrowed_frame (Addr 2) 4) (owned_frame 4) (borrowed_frame NULL (- 1)) True None world2
       = (Inl AssertionError, world2)
   \<and> Registration_apply copying_apply registration1 (borrowed_frame (Addr 0) 1)
        (borrowed_frame (Addr 2) 4) (owned_frame 4) (owned_frame 6) True
        (Some (borrowed_frame NULL (- 1))) world2
       = (Inl AssertionError, world2)"
proof -
  have b: "\<not> take_ownership (borrowed_frame NULL (- 1))" by (simp add: borrowed_frame_def)
  from b have h1: "take_ownership (borrowed_frame (Addr 0) 1)
      \<or> take_ownership (borrowed_frame (Addr 2) 4) \<or> \<not> take_ownership (owned_frame 4)
      \<or> \<not> take_ownership (borrowed_frame NULL (- 1))
      \<or> (\<exists>bd. None = Some bd \<and> \<not> take_ownership bd)" by simp
  from b have h2: "take_ownership (borrowed_frame (Addr 0) 1)
      \<or> take_ownership (borrowed_frame (Addr 2) 4) \<or> \<not> take_ownership (owned_frame 4)
      \<or> \<not> take_ownership (owned_frame 6)
      \<or> (\<exists>bd. Some (borrowed_frame NULL (- 1)) = Some bd \<and> \<not> take_ownership bd)" by simp
  show ?thesis
    using b apply_rejects_wrong_ownership [OF h1, of copying_apply registration1 True world2]
      apply_rejects_wrong_ownership [OF h2, of copying_apply registration1 True world2]
    by blast
qed

text \<open>
  The claim as first stated fails in the kind of the exception: with a \<open>registered\<close>
  frame that does not own its buffer the call raises \<open>AssertionError\<close>, not
  \<open>OwnershipError\<close>.
\<close>

theorem apply_error_kind_counterexample:
  "fst (Registration_apply copying_apply registration1 (borrowed_frame (Addr 0) 1)
          (borrowed_frame (Addr 2) 4) (owned_frame 4) (borrowed_frame NULL (- 1)) True None
          world2) = Inl AssertionError
   \<and> fst (Registration_apply copying_apply registration1 (borrowed_frame (Addr 0) 1)
          (borrowed_frame (Addr 2) 4) (owned_frame 4) (borrowed_frame NULL (- 1)) True None
          world2) \<noteq> Inl OwnershipError"
  by (simp add: Registration_apply_def borrowed_frame_def owned_frame_def)

subsection \<open>Ownership of a pipeline\<close>

lemma dealloc_owned_by_device:
  "owned_by_device pl \<Longrightarrow> PacketPipeline_dealloc pl wd = wd"
  by (cases "pipeline_class pl") (simp_all add: PacketPipeline_dealloc_def)

lemma openDevice_marks:
  "Freenect2_openDevice native_open f2 name (Some pl) wd = (Inr dev, pl', wd')
     \<Longrightarrow> pl' = Some (pl\<lparr>owned_by_device := True\<rparr>)"
  by (auto simp: Freenect2_openDevice_def Freenect2_openDevice_intidx_def
      Freenect2_openDevice_stridx_def split: pyname.splits sum.splits prod.splits)

lemma openDefaultDevice_marks:
  "Freenect2_openDefaultDevice native_open f2 (Some pl) wd = (r, pl', wd')
     \<Longrightarrow> pl' = Some (pl\<lparr>owned_by_device := True\<rparr>) \<and> \<not> isl r"
  by (auto simp: Freenect2_openDefaultDevice_def split: prod.splits)

lemma owning_open_device:
  "Freenect2_openDevice owning_open f2 name (Some pl) wd = (Inr dev, pl', wd1) \<Longrightarrow>
     dev_ptr dev = Addr (next_addr wd) \<and> deleted wd1 = deleted wd
     \<and> device_pipeline wd1 (next_addr wd) = Some (pipeline_ptr_alias pl)"
  by (auto simp: Freenect2_openDevice_def Freenect2_openDevice_intidx_def
      Freenect2_openDevice_stridx_def owning_open_def pipeline_of_call_def Let_def
      split: pyname.splits sum.splits prod.splits)

lemma owning_open_default:
  "Freenect2_openDefaultDevice owning_open f2 (Some pl) wd = (r, pl', wd1) \<Longrightarrow>
     r = Inr \<lparr>dev_ptr = Addr (next_addr wd)\<rparr> \<and> deleted wd1 = deleted wd
     \<and> device_pipeline wd1 (next_addr wd) = Some (pipeline_ptr_alias pl)"
  by (auto simp: Freenect2_openDefaultDevice_def owning_open_def pipeline_of_call_def Let_def)

lemma destructor_deletes:
  "device_pipeline wd d = Some (Addr a) \<Longrightarrow>
     deleted (native_device_destructor (Addr d) wd) = deleted wd @ [a]"
  by (simp add: native_device_destructor_def delete_obj_def)

text \<open>Without the flag, the pipeline object's deallocation deletes the native pipeline.\<close>

lemma dealloc_not_owned:
  "fst (CpuPacketPipeline_cinit wd) = pl \<Longrightarrow>
     deleted (PacketPipeline_dealloc pl wd') = deleted wd' @ [next_addr wd]"
  by (auto simp: CpuPacketPipeline_cinit_def PacketPipeline_dealloc_def delete_obj_def Let_def)

lemma openDevice_opens:
  "name = NameBytes s \<or> (name = NameInt i \<and> - (2 ^ 31) \<le> i \<and> i < 2 ^ 31) \<Longrightarrow>
     \<not> isl (fst (Freenect2_openDevice native_open f2 name (Some pl) wd))
     \<and> fst (snd (Freenect2_openDevice native_open f2 name (Some pl) wd)) =
         Some (pl\<lparr>owned_by_device := True\<rparr>)"
  by (auto simp: Freenect2_openDevice_def Freenect2_openDevice_intidx_def
      Freenect2_openDevice_stridx_def to_c_int_def split: prod.splits)

lemma openDevice_refuses:
  "Freenect2_openDevice native_open f2 (NameStr s) pl0 wd = (Inl TypeError, pl0, wd)
   \<and> Freenect2_openDevice native_open f2 NameOther pl0 wd = (Inl ValueError, pl0, wd)
   \<and> (\<not> (- (2 ^ 31) \<le> i \<and> i < 2 ^ 31) \<longrightarrow>
        Freenect2_openDevice native_open f2 (NameInt i) pl0 wd = (Inl OverflowError, pl0, wd))"
  by (simp add: Freenect2_openDevice_def to_c_int_def)

text \<open>
  Claim C3. When a pipeline is passed to \<open>openDevice\<close> or \<open>openDefaultDevice\<close> and a
  device is returned, the call has set the pipeline's \<open>owned_by_device\<close>, whatever the
  driver did. \<open>openDefaultDevice\<close> always returns a device, and so does \<open>openDevice\<close>
  for a \<open>bytes\<close> name and for an integer name that fits a C \<open>int\<close>; for a \<open>str\<close> name,
  a name of another type or an integer out of range \<open>openDevice\<close> raises before the
  driver is called, no device is returned and the pipeline is left as it was, still the
  owner of its native pipeline. Deallocating a pipeline object with that flag leaves the world as it
  was: the native pipeline is not deleted. With the driver of the note on
  \<open>owned_by_device\<close> (the device's destructor deletes the pipeline it was opened with),
  destroying both the pipeline object and the device, in either order, deletes the
  native pipeline exactly once.
\<close>

theorem pipeline_ownership_transfer:
  "(Freenect2_openDevice native_open f2 name (Some pl) wd = (Inr dev, pl', wd1) \<longrightarrow>
      pl' = Some (pl\<lparr>owned_by_device := True\<rparr>))
   \<and> (name = NameBytes s \<or> (name = NameInt i \<and> - (2 ^ 31) \<le> i \<and> i < 2 ^ 31) \<longrightarrow>
        \<not> isl (fst (Freenect2_openDevice native_open f2 name (Some pl) wd))
        \<and> fst (snd (Freenect2_openDevice native_open f2 name (Some pl) wd)) =
            Some (pl\<lparr>owned_by_device := True\<rparr>))
   \<and> Freenect2_openDevice native_open f2 (NameStr s) (Some pl) wd =
       (Inl TypeError, Some pl, wd)
   \<and> Freenect2_openDevice native_open f2 NameOther (Some pl) wd =
       (Inl ValueError, Some pl, wd)
   \<and> (\<not> (- (2 ^ 31) \<le> i \<and> i < 2 ^ 31) \<longrightarrow>
        Freenect2_openDevice native_open f2 (NameInt i) (Some pl) wd =
          (Inl OverflowError, Some pl, wd))
   \<and> (Freenect2_openDefaultDevice native_open f2 (Some pl) wd = (r, pl', wd1) \<longrightarrow>
      pl' = Some (pl\<lparr>owned_by_device := True\<rparr>) \<and> \<not> isl r)
   \<and> PacketPipeline_dealloc (pl\<lparr>owned_by_device := True\<rparr>) wd2 = wd2
   \<and> ((Freenect2_openDevice owning_open f2 name (Some pl) wd = (Inr dev, Some pl1, wd1)
         \<or> Freenect2_openDefaultDevice owning_open f2 (Some pl) wd = (Inr dev, Some pl1, wd1))
        \<and> pipeline_ptr_alias pl = Addr a \<longrightarrow>
          deleted (native_device_destructor (dev_ptr dev) (PacketPipeline_dealloc pl1 wd1))
            = deleted wd @ [a]
        \<and> deleted (PacketPipeline_dealloc pl1 (native_device_destructor (dev_ptr dev) wd1))
            = deleted wd @ [a])"
proof (intro conjI impI)
  assume "Freenect2_openDevice native_open f2 name (Some pl) wd = (Inr dev, pl', wd1)"
  then show "pl' = Some (pl\<lparr>owned_by_device := True\<rparr>)" by (rule openDevice_marks)
next
  assume n: "name = NameBytes s \<or> (name = NameInt i \<and> - (2 ^ 31) \<le> i \<and> i < 2 ^ 31)"
  from openDevice_opens [OF n]
  show "\<not> isl (fst (Freenect2_openDevice native_open f2 name (Some pl) wd))"
    and "fst (snd (Freenect2_openDevice native_open f2 name (Some pl) wd)) =
            Some (pl\<lparr>owned_by_device := True\<rparr>)" by simp_all
next
  show "Freenect2_openDevice native_open f2 (NameStr s) (Some pl) wd =
       (Inl TypeError, Some pl, wd)"
    by (simp add: openDevice_refuses)
next
  show "Freenect2_openDevice native_open f2 NameOther (Some pl) wd =
       (Inl ValueError, Some pl, wd)"
    by (simp add: openDevice_refuses)
next
  assume "\<not> (- (2 ^ 31) \<le> i \<and> i < 2 ^ 31)"
  then show "Freenect2_openDevice native_open f2 (NameInt i) (Some pl) wd =
          (Inl OverflowError, Some pl, wd)"
    using openDevice_refuses [of native_open f2 s "Some pl" wd i] by blast
next
  assume d: "Freenect2_openDefaultDevice native_open f2 (Some pl) wd = (r, pl', wd1)"
  from openDefaultDevice_marks [OF d]
  show "pl' = Some (pl\<lparr>owned_by_device := True\<rparr>)" and "\<not> isl r" by simp_all
next
  show "PacketPipeline_dealloc (pl\<lparr>owned_by_device := True\<rparr>) wd2 = wd2"
    by (simp add: dealloc_owned_by_device)
next
  assume a: "(Freenect2_openDevice owning_open f2 name (Some pl) wd = (Inr dev, Some pl1, wd1)
         \<or> Freenect2_openDefaultDevice owning_open f2 (Some pl) wd = (Inr dev, Some pl1, wd1))
        \<and> pipeline_ptr_alias pl = Addr a"
  then have al: "pipeline_ptr_alias pl = Addr a" by simp
  have facts: "owned_by_device pl1 \<and> dev_ptr dev = Addr (next_addr wd)
      \<and> deleted wd1 = deleted wd \<and> device_pipeline wd1 (next_addr wd) = Some (Addr a)"
  proof -
    from a consider
      (named) "Freenect2_openDevice owning_open f2 name (Some pl) wd = (Inr dev, Some pl1, wd1)"
      | (default) "Freenect2_openDefaultDevice owning_open f2 (Some pl) wd
          = (Inr dev, Some pl1, wd1)"
      by blast
    then show ?thesis
    proof cases
      case named
      from openDevice_marks [OF named] owning_open_device [OF named] al
      show ?thesis by auto
    next
      case default
      from openDefaultDevice_marks [OF default] owning_open_default [OF default] al
      show ?thesis by auto
    qed
  qed
  then have pl1: "owned_by_device pl1" and d: "dev_ptr dev = Addr (next_addr wd)"
    and del: "deleted wd1 = deleted wd"
    and dp: "device_pipeline wd1 (next_addr wd) = Some (Addr a)" by simp_all
  show "deleted (native_device_destructor (dev_ptr dev) (PacketPipeline_dealloc pl1 wd1))
            = deleted wd @ [a]"
    by (simp add: dealloc_owned_by_device [OF pl1] d destructor_deletes [OF dp] del)
  show "deleted (PacketPipeline_dealloc pl1 (native_device_destructor (dev_ptr dev) wd1))
            = deleted wd @ [a]"
    by (simp add: dealloc_owned_by_device [OF pl1] d destructor_deletes [OF dp] del)
qed

text \<open>
  The theorem at a \<open>CpuPacketPipeline\<close> made in the empty world (its native pipeline is
  at address 0) and passed to \<open>openDevice(0, pipeline)\<close>: the object comes back marked,
  its deallocation changes nothing, and after the device is destroyed as well, in
  either order, address 0 has been deleted once. The object as it was before the call
  would have deleted address 0 itself. Passed to \<open>openDevice(b'0123', pipeline)\<close> it
  comes back marked as well; passed to \<open>openDevice('0123', pipeline)\<close> it comes back as
  it was, with \<open>TypeError\<close>.
\<close>

theorem pipeline_ownership_transfer_witness:
  "CpuPacketPipeline_cinit world0 = (pipeline1, world3)
   \<and> fst (Freenect2_openDevice owning_open freenect2_1 (NameInt 0) (Some pipeline1) world3)
       = Inr \<lparr>dev_ptr = Addr 1\<rparr>
   \<and> fst (snd (Freenect2_openDevice owning_open freenect2_1 (NameInt 0) (Some pipeline1) world3))
       = Some (pipeline1\<lparr>owned_by_device := True\<rparr>)
   \<and> PacketPipeline_dealloc (pipeline1\<lparr>owned_by_device := True\<rparr>) world3 = world3
   \<and> deleted (native_device_destructor (Addr 1)
        (PacketPipeline_dealloc (pipeline1\<lparr>owned_by_device := True\<rparr>)
          (snd (snd (Freenect2_openDevice owning_open freenect2_1 (NameInt 0) (Some pipeline1)
             world3))))) = [0]
   \<and> deleted (PacketPipeline_dealloc (pipeline1\<lparr>owned_by_device := True\<rparr>)
        (native_device_destructor (Addr 1)
          (snd (snd (Freenect2_openDevice owning_open freenect2_1 (NameInt 0) (Some pipeline1)
             world3))))) = [0]
   \<and> deleted (PacketPipeline_dealloc pipeline1 world3) = [0]
   \<and> fst (snd (Freenect2_openDevice owning_open freenect2_1 (NameBytes ''0123'')
        (Some pipeline1) world3)) = Some (pipeline1\<lparr>owned_by_device := True\<rparr>)
   \<and> Freenect2_openDevice owning_open freenect2_1 (NameStr ''0123'') (Some pipeline1) world3 =
       (Inl TypeError, Some pipeline1, world3)"
proof -
  let ?X = "Freenect2_openDevice owning_open freenect2_1 (NameInt 0) (Some pipeline1) world3"
  have c: "CpuPacketPipeline_cinit world0 = (pipeline1, world3)"
    by (simp add: CpuPacketPipeline_cinit_def world0_def pipeline1_def world3_def Let_def)
  have o1: "fst ?X = Inr \<lparr>dev_ptr = Addr 1\<rparr>"
    and o2: "fst (snd ?X) = Some (pipeline1\<lparr>owned_by_device := True\<rparr>)"
    by (simp_all add: Freenect2_openDevice_def Freenect2_openDevice_intidx_def to_c_int_def
        owning_open_def world3_def Let_def)
  then have o: "?X = (Inr \<lparr>dev_ptr = Addr 1\<rparr>, Some (pipeline1\<lparr>owned_by_device := True\<rparr>),
      snd (snd ?X))"
    by (metis prod.collapse)
  have al: "pipeline_ptr_alias pipeline1 = Addr 0" by (simp add: pipeline1_def)
  have w: "deleted world3 = []" by (simp add: world3_def)
  have u: "deleted (PacketPipeline_dealloc pipeline1 world3) = [0]"
    by (simp add: PacketPipeline_dealloc_def delete_obj_def pipeline1_def world3_def)
  note t = pipeline_ownership_transfer [where native_open = owning_open and ?f2.0 = freenect2_1
      and name = "NameInt 0" and pl = pipeline1 and wd = world3 and dev = "\<lparr>dev_ptr = Addr 1\<rparr>"
      and pl' = "Some (pipeline1\<lparr>owned_by_device := True\<rparr>)"
      and ?pl1.0 = "pipeline1\<lparr>owned_by_device := True\<rparr>" and ?wd1.0 = "snd (snd ?X)"
      and ?wd2.0 = world3 and a = 0]
  from t have 1: "PacketPipeline_dealloc (pipeline1\<lparr>owned_by_device := True\<rparr>) world3 = world3"
    by blast
  from t o al
  have 2: "deleted (native_device_destructor (Addr 1)
        (PacketPipeline_dealloc (pipeline1\<lparr>owned_by_device := True\<rparr>) (snd (snd ?X)))) = [0]"
    and 3: "deleted (PacketPipeline_dealloc (pipeline1\<lparr>owned_by_device := True\<rparr>)
        (native_device_destructor (Addr 1) (snd (snd ?X)))) = [0]"
    by (simp_all add: w)
  from pipeline_ownership_transfer [where native_open = owning_open and ?f2.0 = freenect2_1
      and name = "NameBytes ''0123''" and s = "''0123''" and pl = pipeline1 and wd = world3]
  have 4: "fst (snd (Freenect2_openDevice owning_open freenect2_1 (NameBytes ''0123'')
        (Some pipeline1) world3)) = Some (pipeline1\<lparr>owned_by_device := True\<rparr>)"
    and 5: "Freenect2_openDevice owning_open freenect2_1 (NameStr ''0123'') (Some pipeline1)
        world3 = (Inl TypeError, Some pipeline1, world3)"
    by blast+
  show ?thesis using c o1 o2 1 2 3 u 4 5 by blast
qed

end
